theory Spec2Isabelle
  imports Main "HOL-Library.Sublist"
begin

section \<open>Shared vocabulary\<close>

text \<open>
  Identifiers are UUIDs in the source. They are only generated, stored and compared, so
  they are modelled as natural numbers; \<open>uuid.Nil\<close> is \<open>0\<close>.
\<close>

type_synonym uuid = nat

definition uuid_Nil :: uuid where
  "uuid_Nil = 0"

text \<open>
  The outcomes of the ORM that the services distinguish: no row, more than one row for a
  query that expects one, an insert rejected by a constraint of the schema, and an insert
  rejected for another reason (a field validator).
\<close>

datatype ent_error = NotFound | NotSingular | ConstraintError | ValidationError

text \<open>\<open>Query().Only\<close>: exactly one row, otherwise an error.\<close>

fun Only :: "'a list \<Rightarrow> ent_error + 'a" where
  "Only [] = Inl NotFound"
| "Only [x] = Inr x"
| "Only (x # y # zs) = Inl NotSingular"

text \<open>\<open>Query().First\<close>: the first row of the result.\<close>

fun First :: "'a list \<Rightarrow> ent_error + 'a" where
  "First [] = Inl NotFound"
| "First (x # xs) = Inr x"

text \<open>
  \<open>strings.TrimSpace\<close> on the ASCII white space characters (tab, line feed, vertical
  tab, form feed, carriage return, space).
\<close>

definition is_space :: "char \<Rightarrow> bool" where
  "is_space c \<longleftrightarrow> c \<in> set [CHR 0x09, CHR 0x0A, CHR 0x0B, CHR 0x0C, CHR 0x0D, CHR '' '']"

definition TrimSpace :: "string \<Rightarrow> string" where
  "TrimSpace s = rev (dropWhile is_space (rev (dropWhile is_space s)))"

section \<open>Organization units (ou/organization)\<close>

record organization =
  org_id :: uuid
  org_domain_id :: uuid
  org_parent_id :: "uuid option"
  org_code :: string
  org_name :: string
  org_path :: string

record organization_member =
  om_id :: uuid
  om_domain_id :: uuid
  om_organization_id :: uuid
  om_user_id :: uuid
  om_is_primary :: bool

text \<open>
  The two tables the organization service reads and writes, in insertion order, and the
  source of fresh row identifiers.
\<close>

record ou_store =
  organizations :: "organization list"
  organization_members :: "organization_member list"
  ou_next_id :: uuid

text \<open>
  What the service takes from outside this repository: the parser of the domain identifier
  found in the request context, and the store's answer to an insert (\<open>None\<close> when the
  row is accepted; the constraints and validators live in the schema of the core module).
  Reads and updates of existing rows always succeed in this model.
\<close>

record ou_env =
  uuid_Parse :: "string \<Rightarrow> uuid option"
  org_create_err :: "organization list \<Rightarrow> organization \<Rightarrow> ent_error option"
  member_create_err :: "organization_member list \<Rightarrow> organization_member \<Rightarrow> ent_error option"

record CreateOrganizationRequest =
  req_Code :: string
  req_Name :: string
  req_ParentID :: "uuid option"

record AddOrganizationMemberRequest =
  req_UserID :: uuid
  req_IsPrimary :: bool

record OrganizationMemberResponse =
  resp_ID :: uuid
  resp_OrganizationID :: uuid
  resp_UserID :: uuid
  resp_IsPrimary :: bool

datatype ou_error =
    ErrDomainContextMissing
  | ErrInvalidDomainID
  | ErrOrganizationNotFound
  | ErrMemberAlreadyExists
  | ErrRequestNil
  | ErrCodeNameRequired
  | ErrUserIDRequired
  | EntError ent_error

text \<open>The request context of the organization service: the raw domain identifier, if any.\<close>

definition domainIDFromContext :: "ou_env \<Rightarrow> string option \<Rightarrow> ou_error + uuid" where
  "domainIDFromContext env ctx =
     (case ctx of
        None \<Rightarrow> Inl ErrDomainContextMissing
      | Some rawDomainID \<Rightarrow>
          (case uuid_Parse env rawDomainID of
             None \<Rightarrow> Inl ErrInvalidDomainID
           | Some domainID \<Rightarrow> Inr domainID))"

text \<open>
  \<open>toOrganizationResponse\<close> copies every field of the row, so the response is the row.
\<close>

definition toOrganizationResponse :: "organization \<Rightarrow> organization" where
  "toOrganizationResponse item = item"

definition lookup_org :: "ou_store \<Rightarrow> uuid \<Rightarrow> uuid \<Rightarrow> ou_error + organization" where
  "lookup_org s orgID domainID =
     (case Only (filter (\<lambda>x. org_id x = orgID \<and> org_domain_id x = domainID) (organizations s)) of
        Inl e \<Rightarrow> (if e = NotFound then Inl ErrOrganizationNotFound else Inl (EntError e))
      | Inr x \<Rightarrow> Inr x)"

definition CreateOrganization ::
  "ou_env \<Rightarrow> string option \<Rightarrow> ou_store \<Rightarrow> CreateOrganizationRequest option
     \<Rightarrow> (ou_error + organization) \<times> ou_store" where
  "CreateOrganization env ctx s req' =
     (case req' of
        None \<Rightarrow> (Inl ErrRequestNil, s)
      | Some req \<Rightarrow>
     (case domainIDFromContext env ctx of
        Inl e \<Rightarrow> (Inl e, s)
      | Inr domainID \<Rightarrow>
          let code = TrimSpace (req_Code req);
              name = TrimSpace (req_Name req)
          in if code = [] \<or> name = [] then (Inl ErrCodeNameRequired, s)
          else
            (case (case req_ParentID req of
                     None \<Rightarrow> Inr (None, [])
                   | Some pid \<Rightarrow>
                       (case lookup_org s pid domainID of
                          Inl e \<Rightarrow> Inl e
                        | Inr parent \<Rightarrow> Inr (Some (org_id parent), org_path parent))) of
               Inl e \<Rightarrow> (Inl e, s)
             | Inr (parentID, pathPrefix) \<Rightarrow>
                 let path = (if pathPrefix = [] then code else pathPrefix @ ''/'' @ code);
                     item = \<lparr>org_id = ou_next_id s, org_domain_id = domainID,
                             org_parent_id = parentID, org_code = code, org_name = name,
                             org_path = path\<rparr>
                 in (case org_create_err env (organizations s) item of
                       Some e \<Rightarrow> (Inl (EntError e), s)
                     | None \<Rightarrow>
                         (Inr (toOrganizationResponse item),
                          s\<lparr>organizations := organizations s @ [item],
                            ou_next_id := Suc (ou_next_id s)\<rparr>)))))"

text \<open>
  The bulk update that clears the primary flag of every primary row of a user in a domain.
\<close>

definition demote_primary :: "uuid \<Rightarrow> uuid \<Rightarrow> organization_member \<Rightarrow> organization_member" where
  "demote_primary domainID userID m =
     (if om_domain_id m = domainID \<and> om_user_id m = userID \<and> om_is_primary m
      then m\<lparr>om_is_primary := False\<rparr> else m)"

definition AddOrganizationMember ::
  "ou_env \<Rightarrow> string option \<Rightarrow> ou_store \<Rightarrow> uuid \<Rightarrow> AddOrganizationMemberRequest option
     \<Rightarrow> (ou_error + OrganizationMemberResponse) \<times> ou_store" where
  "AddOrganizationMember env ctx s organizationID req' =
     (case req' of
        None \<Rightarrow> (Inl ErrRequestNil, s)
      | Some req \<Rightarrow>
     (case domainIDFromContext env ctx of
        Inl e \<Rightarrow> (Inl e, s)
      | Inr domainID \<Rightarrow>
          if req_UserID req = uuid_Nil then (Inl ErrUserIDRequired, s)
          else
            (case lookup_org s organizationID domainID of
               Inl e \<Rightarrow> (Inl e, s)
             | Inr _ \<Rightarrow>
                 let s1 = (if req_IsPrimary req
                           then s\<lparr>organization_members :=
                                    map (demote_primary domainID (req_UserID req))
                                      (organization_members s)\<rparr>
                           else s);
                     item = \<lparr>om_id = ou_next_id s1, om_domain_id = domainID,
                             om_organization_id = organizationID,
                             om_user_id = req_UserID req,
                             om_is_primary = req_IsPrimary req\<rparr>
                 in (case member_create_err env (organization_members s1) item of
                       Some e \<Rightarrow>
                         (if e = ConstraintError then (Inl ErrMemberAlreadyExists, s1)
                          else (Inl (EntError e), s1))
                     | None \<Rightarrow>
                         (Inr \<lparr>resp_ID = om_id item,
                               resp_OrganizationID = om_organization_id item,
                               resp_UserID = om_user_id item,
                               resp_IsPrimary = om_is_primary item\<rparr>,
                          s1\<lparr>organization_members := organization_members s1 @ [item],
                             ou_next_id := Suc (ou_next_id s1)\<rparr>)))))"

text \<open>
  \<open>uniqueUserIDs\<close>: the user of every member in order, each user once; the slice may
  hold nil entries, which are skipped.
\<close>

fun uniqueUserIDs_loop ::
  "uuid set \<Rightarrow> uuid list \<Rightarrow> organization_member option list \<Rightarrow> uuid list" where
  "uniqueUserIDs_loop seen userIDs [] = userIDs"
| "uniqueUserIDs_loop seen userIDs (None # rest) = uniqueUserIDs_loop seen userIDs rest"
| "uniqueUserIDs_loop seen userIDs (Some item # rest) =
     (if om_user_id item \<in> seen then uniqueUserIDs_loop seen userIDs rest
      else uniqueUserIDs_loop (insert (om_user_id item) seen) (userIDs @ [om_user_id item]) rest)"

definition uniqueUserIDs :: "organization_member option list \<Rightarrow> uuid list" where
  "uniqueUserIDs members =
     (if length members = 0 then [] else uniqueUserIDs_loop {} [] members)"

definition ListOrganizationUserIDs :: "ou_store \<Rightarrow> uuid \<Rightarrow> uuid \<Rightarrow> ou_error + uuid list" where
  "ListOrganizationUserIDs s domainID orgID =
     Inr (uniqueUserIDs (map Some
       (filter (\<lambda>m. om_domain_id m = domainID \<and> om_organization_id m = orgID)
          (organization_members s))))"

definition ListSubtreeUserIDs :: "ou_store \<Rightarrow> uuid \<Rightarrow> uuid \<Rightarrow> ou_error + uuid list" where
  "ListSubtreeUserIDs s domainID orgID =
     (case lookup_org s orgID domainID of
        Inl e \<Rightarrow> Inl e
      | Inr org \<Rightarrow>
          let nodes = filter (\<lambda>x. org_domain_id x = domainID \<and> prefix (org_path org) (org_path x))
                        (organizations s)
          in if length nodes = 0 then Inr []
             else
               let orgIDs = map org_id nodes;
                   members = filter (\<lambda>m. om_domain_id m = domainID
                                          \<and> om_organization_id m \<in> set orgIDs)
                               (organization_members s)
               in Inr (uniqueUserIDs (map Some members)))"

text \<open>
  The subtree of a node as the parent references define it: the node itself and every node
  whose parent is in the subtree. This is the reading of "descendant" that the subtree
  query is compared with.
\<close>

inductive in_subtree :: "organization list \<Rightarrow> uuid \<Rightarrow> uuid \<Rightarrow> bool"
  for orgs :: "organization list" and root :: uuid where
  subtree_root: "in_subtree orgs root root"
| subtree_child:
    "x \<in> set orgs \<Longrightarrow> org_parent_id x = Some p \<Longrightarrow> in_subtree orgs root p
       \<Longrightarrow> in_subtree orgs root (org_id x)"

section \<open>Tenants and memberships (tenant/tenant)\<close>

datatype tenantuser_status = StatusActive | StatusInactive

record tenant =
  t_id :: uuid
  t_code :: string
  t_name :: string
  t_description :: string
  t_status :: string
  t_owner_id :: uuid
  t_parent_tenant_id :: "uuid option"
  t_deleted_at :: "nat option"
  t_created_at :: nat
  t_updated_at :: nat

record tenant_user =
  tu_id :: uuid
  tu_tenant_id :: uuid
  tu_user_id :: uuid
  tu_role :: string
  tu_is_default :: bool
  tu_status :: tenantuser_status
  tu_deleted_at :: "nat option"
  tu_created_at :: nat

record user_info =
  ui_id :: uuid
  ui_username :: string
  ui_email :: string
  ui_nickname :: string
  ui_status :: string

record role =
  role_id :: uuid
  role_owner_domain_id :: uuid
  role_name :: string
  role_code :: string
  role_is_system :: bool
  role_permissions :: "string list"

record resolved_domain =
  dom_id :: uuid
  dom_type_code :: string
  dom_key :: string
  dom_display_name :: string

record domain_membership =
  dm_domain_id :: uuid
  dm_subject_id :: uuid
  dm_role :: string
  dm_is_default :: bool

datatype event =
    TenantEvent string uuid string uuid uuid
  | MemberEvent string uuid uuid string uuid

text \<open>
  Everything the tenant service can observe or change: the tables of the store (tenants,
  tenant-user memberships, users, roles), the domain directory behind the
  \<open>DomainWriter\<close> port (domains and their memberships), the events published so far,
  and the source of fresh identifiers. Tables are lists in insertion order.
\<close>

record world =
  tenants :: "tenant list"
  tenant_users :: "tenant_user list"
  users :: "user_info list"
  roles :: "role list"
  domains :: "resolved_domain list"
  domain_memberships :: "domain_membership list"
  published :: "event list"
  next_id :: uuid

datatype tenant_error =
    ErrTenantNotFound
  | ErrTenantCodeExists
  | ErrInvalidTenant
  | ErrMemberExists
  | ErrMemberNotFound
  | ErrPlatformDomainOnly
  | ErrParentTenantInvalid
  | TenantEntError ent_error
  | External string
  | Wrapped string tenant_error

text \<open>
  What the tenant service takes from outside this repository. \<open>userLookup\<close> is the
  \<open>UserLookup\<close> port and \<open>parse_uuid\<close> the UUID parser. The store answers every insert
  (\<open>None\<close> when the row is accepted); reads and updates of existing rows always succeed
  in this model. The calls of the \<open>DomainWriter\<close> port and the commit of a transaction
  can fail; the flags say whether they do. The two defaults are the schema's values for a
  column the service leaves unset.
\<close>

record tenant_env =
  userLookup :: "uuid \<Rightarrow> tenant_error + user_info"
  parse_uuid :: "string \<Rightarrow> uuid option"
  tenant_create_err :: "tenant list \<Rightarrow> tenant \<Rightarrow> ent_error option"
  tenant_user_create_err :: "tenant_user list \<Rightarrow> tenant_user \<Rightarrow> ent_error option"
  role_create_err :: "role list \<Rightarrow> role \<Rightarrow> ent_error option"
  ensure_domain_fails :: bool
  add_membership_fails :: bool
  remove_membership_fails :: bool
  commit_fails :: bool
  default_tenant_status :: string
  default_role :: string

text \<open>
  The request context: the acting context (absent, or present with its platform-domain
  flag), the acting user, and the time of the call.
\<close>

record request_context =
  ctx_acting :: "bool option"
  ctx_user_id :: "uuid option"
  ctx_now :: nat

record CreateRequest =
  cr_Code :: string
  cr_Name :: string
  cr_Description :: string
  cr_Status :: string
  cr_ParentTenantID :: string

record UpdateRequest =
  ur_Name :: string
  ur_Description :: string
  ur_Status :: string
  ur_ParentTenantID :: string

record TenantDTO =
  dto_ID :: uuid
  dto_Code :: string
  dto_Name :: string
  dto_Description :: string
  dto_Status :: string
  dto_OwnerID :: "uuid option"
  dto_ParentTenantID :: "uuid option"
  dto_DomainID :: uuid
  dto_CreatedAt :: nat
  dto_UpdatedAt :: nat

text \<open>\<open>Query().Exist\<close>: whether the result has a row.\<close>

definition Exist :: "'a list \<Rightarrow> bool" where
  "Exist xs \<longleftrightarrow> xs \<noteq> []"

subsection \<open>The domain directory\<close>

text \<open>
  Modelled from the spec: the \<open>DomainWriter\<close> port is implemented outside this
  repository. \<open>ResolveDomain\<close> finds the domain of a type and key, \<open>EnsureDomain\<close>
  is an idempotent get-or-create, \<open>AddMembership\<close> and \<open>RemoveMembership\<close> add and
  remove the membership of a subject in a domain. They receive the request context only,
  never the service's transaction, so what they write is written at once.
\<close>

definition ResolveDomain :: "world \<Rightarrow> string \<Rightarrow> string \<Rightarrow> tenant_error + resolved_domain" where
  "ResolveDomain w typeCode key =
     (case find (\<lambda>d. dom_type_code d = typeCode \<and> dom_key d = key) (domains w) of
        None \<Rightarrow> Inl (External ''domain not found'')
      | Some d \<Rightarrow> Inr d)"

definition EnsureDomain ::
  "tenant_env \<Rightarrow> world \<Rightarrow> string \<Rightarrow> string \<Rightarrow> string
     \<Rightarrow> (tenant_error + resolved_domain) \<times> world" where
  "EnsureDomain env w typeCode key displayName =
     (if ensure_domain_fails env then (Inl (External ''ensure domain failed''), w)
      else
        (case find (\<lambda>d. dom_type_code d = typeCode \<and> dom_key d = key) (domains w) of
           Some d \<Rightarrow> (Inr d, w)
         | None \<Rightarrow>
             let d = \<lparr>dom_id = next_id w, dom_type_code = typeCode, dom_key = key,
                      dom_display_name = displayName\<rparr>
             in (Inr d, w\<lparr>domains := domains w @ [d], next_id := Suc (next_id w)\<rparr>)))"

definition AddMembership ::
  "tenant_env \<Rightarrow> world \<Rightarrow> uuid \<Rightarrow> uuid \<Rightarrow> string \<Rightarrow> bool \<Rightarrow> tenant_error option \<times> world" where
  "AddMembership env w domainID subjectID roleName isDefault =
     (if add_membership_fails env then (Some (External ''add membership failed''), w)
      else
        (None,
         w\<lparr>domain_memberships :=
             filter (\<lambda>m. \<not> (dm_domain_id m = domainID \<and> dm_subject_id m = subjectID))
               (domain_memberships w)
             @ [\<lparr>dm_domain_id = domainID, dm_subject_id = subjectID, dm_role = roleName,
                 dm_is_default = isDefault\<rparr>]\<rparr>))"

definition RemoveMembership :: "tenant_env \<Rightarrow> world \<Rightarrow> uuid \<Rightarrow> uuid \<Rightarrow> tenant_error option \<times> world" where
  "RemoveMembership env w domainID subjectID =
     (if remove_membership_fails env then (Some (External ''remove membership failed''), w)
      else
        (None,
         w\<lparr>domain_memberships :=
             filter (\<lambda>m. \<not> (dm_domain_id m = domainID \<and> dm_subject_id m = subjectID))
               (domain_memberships w)\<rparr>))"

subsection \<open>The role seeder and the user lookup of the factory (tenant/factory)\<close>

fun seed_roles ::
  "tenant_env \<Rightarrow> world \<Rightarrow> uuid \<Rightarrow> (string \<times> string) list \<Rightarrow> tenant_error option \<times> world" where
  "seed_roles env w domainID [] = (None, w)"
| "seed_roles env w domainID ((name, code) # baseline) =
     (if Exist (filter (\<lambda>r. role_owner_domain_id r = domainID \<and> role_code r = code) (roles w))
      then seed_roles env w domainID baseline
      else
        let r = \<lparr>role_id = next_id w, role_owner_domain_id = domainID, role_name = name,
                 role_code = code, role_is_system = True, role_permissions = []\<rparr>
        in (case role_create_err env (roles w) r of
              Some e \<Rightarrow> (Some (TenantEntError e), w)
            | None \<Rightarrow>
                seed_roles env (w\<lparr>roles := roles w @ [r], next_id := Suc (next_id w)\<rparr>)
                  domainID baseline))"

definition SeedBaselineRoles :: "tenant_env \<Rightarrow> world \<Rightarrow> uuid \<Rightarrow> tenant_error option \<times> world" where
  "SeedBaselineRoles env w domainID =
     seed_roles env w domainID [(''Owner'', ''owner''), (''Member'', ''member'')]"

definition entUserLookup :: "user_info list \<Rightarrow> uuid \<Rightarrow> tenant_error + user_info" where
  "entUserLookup us userID =
     (case Only (filter (\<lambda>u. ui_id u = userID) us) of
        Inl e \<Rightarrow> Inl (TenantEntError e)
      | Inr u \<Rightarrow> Inr u)"

subsection \<open>Private helpers of the service\<close>

definition requirePlatformDomain :: "request_context \<Rightarrow> tenant_error option" where
  "requirePlatformDomain ctx =
     (case ctx_acting ctx of
        None \<Rightarrow> Some ErrPlatformDomainOnly
      | Some isPlatform \<Rightarrow> (if isPlatform then None else Some ErrPlatformDomainOnly))"

text \<open>
  \<open>client.Tenant.Get\<close> followed by the error mapping every caller repeats: the row
  with the identifier, whatever its deletion timestamp.
\<close>

definition get_tenant :: "world \<Rightarrow> uuid \<Rightarrow> tenant_error + tenant" where
  "get_tenant w tenantID =
     (case Only (filter (\<lambda>t. t_id t = tenantID) (tenants w)) of
        Inl e \<Rightarrow>
          (if e = NotFound then Inl ErrTenantNotFound
           else Inl (Wrapped ''get tenant'' (TenantEntError e)))
      | Inr t \<Rightarrow> Inr t)"

definition toDTO :: "tenant \<Rightarrow> uuid \<Rightarrow> TenantDTO" where
  "toDTO t domainID =
     \<lparr>dto_ID = t_id t, dto_Code = t_code t, dto_Name = t_name t,
      dto_Description = t_description t, dto_Status = t_status t,
      dto_OwnerID = (if t_owner_id t = uuid_Nil then None else Some (t_owner_id t)),
      dto_ParentTenantID =
        (case t_parent_tenant_id t of
           None \<Rightarrow> None
         | Some p \<Rightarrow> (if p = uuid_Nil then None else Some p)),
      dto_DomainID = domainID, dto_CreatedAt = t_created_at t,
      dto_UpdatedAt = t_updated_at t\<rparr>"

definition resolveDomainIDSafe :: "world \<Rightarrow> string \<Rightarrow> uuid" where
  "resolveDomainIDSafe w tenantCode =
     (case ResolveDomain w ''tenant'' tenantCode of
        Inl _ \<Rightarrow> uuid_Nil
      | Inr d \<Rightarrow> dom_id d)"

definition resolveParentTenantID ::
  "tenant_env \<Rightarrow> world \<Rightarrow> string \<Rightarrow> uuid \<Rightarrow> tenant_error + (uuid \<times> bool)" where
  "resolveParentTenantID env w parentRef0 selfID =
     (let parentRef = TrimSpace parentRef0
      in if parentRef = [] then Inr (uuid_Nil, False)
         else
           (case (case parse_uuid env parentRef of
                    Some parentID \<Rightarrow>
                      Only (filter (\<lambda>t. t_id t = parentID \<and> t_deleted_at t = None) (tenants w))
                  | None \<Rightarrow>
                      Only (filter (\<lambda>t. t_code t = parentRef \<and> t_deleted_at t = None) (tenants w))) of
              Inl e \<Rightarrow>
                (if e = NotFound then Inl ErrParentTenantInvalid
                 else Inl (Wrapped ''resolve parent tenant'' (TenantEntError e)))
            | Inr parentEntity \<Rightarrow>
                (if selfID \<noteq> uuid_Nil \<and> t_id parentEntity = selfID
                 then Inl ErrParentTenantInvalid
                 else Inr (t_id parentEntity, True))))"

text \<open>The update of \<open>ensureMembership\<close> on a row found soft-deleted or inactive.\<close>

definition reactivate :: "uuid \<Rightarrow> tenant_user \<Rightarrow> tenant_user" where
  "reactivate rowID m =
     (if tu_id m = rowID then m\<lparr>tu_deleted_at := None, tu_status := StatusActive\<rparr> else m)"

text \<open>
  Whether the user has a membership that is flagged default and not soft-deleted: the
  query both variants of \<open>ensureMembership\<close> run before a fresh insert.
\<close>

definition hasDefault :: "tenant_user list \<Rightarrow> uuid \<Rightarrow> bool" where
  "hasDefault rows userID =
     Exist (filter (\<lambda>m. tu_user_id m = userID \<and> tu_is_default m \<and> tu_deleted_at m = None) rows)"

definition new_membership ::
  "tenant_env \<Rightarrow> request_context \<Rightarrow> uuid \<Rightarrow> uuid \<Rightarrow> uuid \<Rightarrow> bool \<Rightarrow> string \<Rightarrow> tenant_user" where
  "new_membership env ctx rowID tenantID userID isDefault roleName =
     \<lparr>tu_id = rowID, tu_tenant_id = tenantID, tu_user_id = userID,
      tu_role = (if roleName = [] then default_role env else roleName),
      tu_is_default = isDefault, tu_status = StatusActive, tu_deleted_at = None,
      tu_created_at = ctx_now ctx\<rparr>"

definition ensureMembership ::
  "tenant_env \<Rightarrow> request_context \<Rightarrow> world \<Rightarrow> uuid \<Rightarrow> uuid \<Rightarrow> bool \<Rightarrow> string
     \<Rightarrow> tenant_error option \<times> world" where
  "ensureMembership env ctx w tenantID userID forceDefault roleName =
     (case First (filter (\<lambda>m. tu_tenant_id m = tenantID \<and> tu_user_id m = userID)
                    (tenant_users w)) of
        Inr existing \<Rightarrow>
          (if tu_deleted_at existing = None \<and> tu_status existing = StatusActive
           then (None, w)
           else (None, w\<lparr>tenant_users := map (reactivate (tu_id existing)) (tenant_users w)\<rparr>))
      | Inl e \<Rightarrow>
          (if e = NotFound
           then
             let isDefault = (if forceDefault then True
                              else \<not> hasDefault (tenant_users w) userID);
                 item = new_membership env ctx (next_id w) tenantID userID isDefault roleName
             in (case tenant_user_create_err env (tenant_users w) item of
                   Some e' \<Rightarrow> (Some (Wrapped ''create membership'' (TenantEntError e')), w)
                 | None \<Rightarrow>
                     (None, w\<lparr>tenant_users := tenant_users w @ [item],
                              next_id := Suc (next_id w)\<rparr>))
           else (Some (Wrapped ''query membership'' (TenantEntError e)), w)))"

text \<open>
  The tables a transaction of \<open>CreateTenant\<close> works on: its own view of the tenants and
  of the tenant-user memberships, written back to the store only by a commit.
\<close>

record tx =
  tx_tenants :: "tenant list"
  tx_tenant_users :: "tenant_user list"

text \<open>The update of \<open>ensureMembershipTx\<close> on a row that already exists.\<close>

definition reactivateTx :: "uuid \<Rightarrow> bool \<Rightarrow> string \<Rightarrow> tenant_user \<Rightarrow> tenant_user" where
  "reactivateTx rowID forceDefault roleName m =
     (if tu_id m = rowID
      then m\<lparr>tu_deleted_at := None, tu_status := StatusActive,
             tu_is_default := (if forceDefault then True else tu_is_default m),
             tu_role := (if roleName = [] then tu_role m else roleName)\<rparr>
      else m)"

definition ensureMembershipTx ::
  "tenant_env \<Rightarrow> request_context \<Rightarrow> uuid \<Rightarrow> tx \<Rightarrow> uuid \<Rightarrow> uuid \<Rightarrow> bool \<Rightarrow> string
     \<Rightarrow> tenant_error option \<times> tx" where
  "ensureMembershipTx env ctx freshID x tenantID userID forceDefault roleName =
     (case First (filter (\<lambda>m. tu_tenant_id m = tenantID \<and> tu_user_id m = userID)
                    (tx_tenant_users x)) of
        Inr existing \<Rightarrow>
          (None, x\<lparr>tx_tenant_users :=
                     map (reactivateTx (tu_id existing) forceDefault roleName)
                       (tx_tenant_users x)\<rparr>)
      | Inl e \<Rightarrow>
          (if e = NotFound
           then
             let isDefault = (if forceDefault then True
                              else \<not> hasDefault (tx_tenant_users x) userID);
                 item = new_membership env ctx freshID tenantID userID isDefault roleName
             in (case tenant_user_create_err env (tx_tenant_users x) item of
                   Some e' \<Rightarrow> (Some (Wrapped ''create membership'' (TenantEntError e')), x)
                 | None \<Rightarrow> (None, x\<lparr>tx_tenant_users := tx_tenant_users x @ [item]\<rparr>))
           else (Some (Wrapped ''query membership'' (TenantEntError e)), x)))"

subsection \<open>Operations of the service\<close>

text \<open>\<open>events.Publish\<close>: the event is recorded; its result is ignored by every caller.\<close>

definition publish :: "world \<Rightarrow> event \<Rightarrow> world" where
  "publish w e = w\<lparr>published := published w @ [e]\<rparr>"

definition actor_of :: "request_context \<Rightarrow> uuid" where
  "actor_of ctx = (case ctx_user_id ctx of None \<Rightarrow> uuid_Nil | Some userID \<Rightarrow> userID)"

text \<open>
  The owner binding of \<open>CreateTenant\<close>: the membership in the domain goes through the
  \<open>DomainWriter\<close> port, the tenant-user row through the transaction.
\<close>

definition bind_owner ::
  "tenant_env \<Rightarrow> request_context \<Rightarrow> world \<Rightarrow> tx \<Rightarrow> uuid \<Rightarrow> uuid
     \<Rightarrow> tenant_error option \<times> world \<times> tx" where
  "bind_owner env ctx w x tenantID domainID =
     (case ctx_user_id ctx of
        None \<Rightarrow> (None, w, x)
      | Some ownerID \<Rightarrow>
          (case AddMembership env w domainID ownerID ''tenant_admin'' True of
             (Some e, w1) \<Rightarrow> (Some (Wrapped ''add owner membership to domain'' e), w1, x)
           | (None, w1) \<Rightarrow>
               (case ensureMembershipTx env ctx (next_id w1) x tenantID ownerID True
                       ''tenant_admin'' of
                  (Some e, x1) \<Rightarrow>
                    (Some (Wrapped ''create owner tenant-user record'' e), w1, x1)
                | (None, x1) \<Rightarrow> (None, w1\<lparr>next_id := Suc (next_id w1)\<rparr>, x1))))"

text \<open>The row the builder of \<open>CreateTenant\<close> describes.\<close>

definition new_tenant ::
  "tenant_env \<Rightarrow> request_context \<Rightarrow> uuid \<Rightarrow> CreateRequest \<Rightarrow> uuid \<times> bool \<Rightarrow> tenant" where
  "new_tenant env ctx rowID req parent =
     (let status = TrimSpace (cr_Status req)
      in \<lparr>t_id = rowID, t_code = TrimSpace (cr_Code req), t_name = TrimSpace (cr_Name req),
          t_description = cr_Description req,
          t_status = (if status = [] then default_tenant_status env else status),
          t_owner_id = actor_of ctx,
          t_parent_tenant_id = (if snd parent then Some (fst parent) else None),
          t_deleted_at = None, t_created_at = ctx_now ctx, t_updated_at = ctx_now ctx\<rparr>)"

text \<open>
  \<open>CreateTenant\<close>. The tenant row and the owner's tenant-user row are written to the
  transaction \<open>x\<close>; a rollback drops \<open>x\<close>, a commit copies its two tables into the
  store. The domain, the roles and the domain membership are written by the ports, which
  work on the store \<open>w\<close> itself.
\<close>

definition CreateTenant ::
  "tenant_env \<Rightarrow> request_context \<Rightarrow> world \<Rightarrow> CreateRequest
     \<Rightarrow> (tenant_error + TenantDTO) \<times> world" where
  "CreateTenant env ctx w req =
     (case requirePlatformDomain ctx of
        Some e \<Rightarrow> (Inl e, w)
      | None \<Rightarrow>
          let code = TrimSpace (cr_Code req);
              name = TrimSpace (cr_Name req)
          in if code = [] \<or> name = [] then (Inl ErrInvalidTenant, w)
          else
            let x = \<lparr>tx_tenants = tenants w, tx_tenant_users = tenant_users w\<rparr>
            in (case resolveParentTenantID env w (cr_ParentTenantID req) uuid_Nil of
                  Inl e \<Rightarrow> (Inl e, w)
                | Inr parent \<Rightarrow>
                    let t = new_tenant env ctx (next_id w) req parent
                    in (case tenant_create_err env (tx_tenants x) t of
                          Some e \<Rightarrow>
                            (if e = ConstraintError then (Inl ErrTenantCodeExists, w)
                             else (Inl (Wrapped ''create tenant'' (TenantEntError e)), w))
                        | None \<Rightarrow>
                            let x1 = x\<lparr>tx_tenants := tx_tenants x @ [t]\<rparr>;
                                w1 = w\<lparr>next_id := Suc (next_id w)\<rparr>
                            in (case EnsureDomain env w1 ''tenant'' code name of
                                  (Inl e, w2) \<Rightarrow> (Inl (Wrapped ''ensure domain'' e), w2)
                                | (Inr d, w2) \<Rightarrow>
                                    (case SeedBaselineRoles env w2 (dom_id d) of
                                       (Some e, w3) \<Rightarrow>
                                         (Inl (Wrapped ''seed baseline roles'' e), w3)
                                     | (None, w3) \<Rightarrow>
                                         (case bind_owner env ctx w3 x1 (t_id t) (dom_id d) of
                                            (Some e, w4, x2) \<Rightarrow> (Inl e, w4)
                                          | (None, w4, x2) \<Rightarrow>
                                              if commit_fails env
                                              then (Inl (Wrapped ''commit tenant creation''
                                                           (External ''commit failed'')), w4)
                                              else
                                                let w5 = w4\<lparr>tenants := tx_tenants x2,
                                                            tenant_users := tx_tenant_users x2\<rparr>
                                                in (Inr (toDTO t (dom_id d)),
                                                    publish w5
                                                      (TenantEvent ''tenant.created'' (t_id t)
                                                         (t_code t) (dom_id d)
                                                         (actor_of ctx)))))))))"

definition apply_update :: "request_context \<Rightarrow> UpdateRequest \<Rightarrow> uuid \<times> bool \<Rightarrow> tenant \<Rightarrow> tenant" where
  "apply_update ctx req parent t =
     t\<lparr>t_parent_tenant_id := (if snd parent then Some (fst parent) else t_parent_tenant_id t),
       t_name := (if ur_Name req = [] then t_name t else TrimSpace (ur_Name req)),
       t_description := (if ur_Description req = [] then t_description t
                         else ur_Description req),
       t_status := (if ur_Status req = [] then t_status t else ur_Status req),
       t_updated_at := ctx_now ctx\<rparr>"

definition UpdateTenant ::
  "tenant_env \<Rightarrow> request_context \<Rightarrow> world \<Rightarrow> uuid \<Rightarrow> UpdateRequest
     \<Rightarrow> (tenant_error + TenantDTO) \<times> world" where
  "UpdateTenant env ctx w tenantID req =
     (case requirePlatformDomain ctx of
        Some e \<Rightarrow> (Inl e, w)
      | None \<Rightarrow>
          (case get_tenant w tenantID of
             Inl e \<Rightarrow> (Inl e, w)
           | Inr t0 \<Rightarrow>
               (case resolveParentTenantID env w (ur_ParentTenantID req) tenantID of
                  Inl e \<Rightarrow> (Inl e, w)
                | Inr parent \<Rightarrow>
                    let t = apply_update ctx req parent t0;
                        w1 = w\<lparr>tenants := map (\<lambda>row. if t_id row = t_id t0
                                                      then apply_update ctx req parent row
                                                      else row) (tenants w)\<rparr>;
                        domainID = resolveDomainIDSafe w1 (t_code t)
                    in (Inr (toDTO t domainID),
                        publish w1
                          (TenantEvent ''tenant.updated'' (t_id t) (t_code t) domainID
                             (actor_of ctx))))))"

definition DeleteTenant ::
  "tenant_env \<Rightarrow> request_context \<Rightarrow> world \<Rightarrow> uuid \<Rightarrow> tenant_error option \<times> world" where
  "DeleteTenant env ctx w tenantID =
     (case requirePlatformDomain ctx of
        Some e \<Rightarrow> (Some e, w)
      | None \<Rightarrow>
          (case get_tenant w tenantID of
             Inl e \<Rightarrow> (Some e, w)
           | Inr t \<Rightarrow>
               let now = ctx_now ctx;
                   w1 = w\<lparr>tenants := map (\<lambda>row. if t_id row = tenantID
                                                 then row\<lparr>t_deleted_at := Some now\<rparr>
                                                 else row) (tenants w)\<rparr>;
                   domainID = resolveDomainIDSafe w1 (t_code t)
               in (None,
                   publish w1
                     (TenantEvent ''tenant.deleted'' (t_id t) (t_code t) domainID
                        (actor_of ctx)))))"

text \<open>
  The user row joined to a membership by \<open>WithUser\<close>: nil when the user row is missing.
\<close>

definition Edges_User :: "world \<Rightarrow> tenant_user \<Rightarrow> user_info option" where
  "Edges_User w m = find (\<lambda>u. ui_id u = tu_user_id m) (users w)"

text \<open>The loop of \<open>AddMember\<close> over the active members of the tenant.\<close>

fun member_conflict :: "world \<Rightarrow> uuid \<Rightarrow> user_info \<Rightarrow> tenant_user list \<Rightarrow> bool" where
  "member_conflict w userID u [] = False"
| "member_conflict w userID u (m # existingMembers) =
     (case Edges_User w m of
        None \<Rightarrow> member_conflict w userID u existingMembers
      | Some mu \<Rightarrow>
          (if tu_user_id m = userID then member_conflict w userID u existingMembers
           else if ui_username mu = ui_username u \<or> ui_email mu = ui_email u then True
           else member_conflict w userID u existingMembers))"

definition AddMember ::
  "tenant_env \<Rightarrow> request_context \<Rightarrow> world \<Rightarrow> uuid \<Rightarrow> uuid \<Rightarrow> string
     \<Rightarrow> tenant_error option \<times> world" where
  "AddMember env ctx w tenantID userID role =
     (case requirePlatformDomain ctx of
        Some e \<Rightarrow> (Some e, w)
      | None \<Rightarrow>
          (case get_tenant w tenantID of
             Inl e \<Rightarrow> (Some e, w)
           | Inr t \<Rightarrow>
               (case userLookup env userID of
                  Inl e \<Rightarrow> (Some e, w)
                | Inr u \<Rightarrow>
                    let existingMembers =
                          filter (\<lambda>m. tu_tenant_id m = t_id t \<and> tu_deleted_at m = None
                                       \<and> tu_status m = StatusActive) (tenant_users w)
                    in if member_conflict w userID u existingMembers
                       then (Some ErrMemberExists, w)
                       else
                         let roleName = (if role = [] then ''member'' else role);
                             domainID = resolveDomainIDSafe w (t_code t)
                         in (case (if domainID = uuid_Nil then (None, w)
                                   else AddMembership env w domainID userID roleName False) of
                               (Some e, w1) \<Rightarrow> (Some (Wrapped ''add domain membership'' e), w1)
                             | (None, w1) \<Rightarrow>
                                 (case ensureMembership env ctx w1 (t_id t) userID False
                                         roleName of
                                    (Some e, w2) \<Rightarrow> (Some (Wrapped ''ensure membership'' e), w2)
                                  | (None, w2) \<Rightarrow>
                                      (None,
                                       publish w2
                                         (MemberEvent ''tenant.member.added'' tenantID userID
                                            roleName (actor_of ctx))))))))"

text \<open>The two updates of \<open>RemoveMember\<close>: the soft delete and the promotion.\<close>

definition soft_delete :: "uuid \<Rightarrow> nat \<Rightarrow> tenant_user \<Rightarrow> tenant_user" where
  "soft_delete rowID now m = (if tu_id m = rowID then m\<lparr>tu_deleted_at := Some now\<rparr> else m)"

definition promote :: "uuid \<Rightarrow> tenant_user \<Rightarrow> tenant_user" where
  "promote rowID m = (if tu_id m = rowID then m\<lparr>tu_is_default := True\<rparr> else m)"

text \<open>The user's memberships that are active and not soft-deleted, in any tenant.\<close>

definition active_memberships :: "world \<Rightarrow> uuid \<Rightarrow> tenant_user list" where
  "active_memberships w userID =
     filter (\<lambda>m. tu_user_id m = userID \<and> tu_deleted_at m = None \<and> tu_status m = StatusActive)
       (tenant_users w)"

definition reassign_default :: "world \<Rightarrow> uuid \<Rightarrow> world" where
  "reassign_default w userID =
     (case First (sort_key tu_created_at (active_memberships w userID)) of
        Inr alt \<Rightarrow> w\<lparr>tenant_users := map (promote (tu_id alt)) (tenant_users w)\<rparr>
      | Inl _ \<Rightarrow> w)"

definition RemoveMember ::
  "tenant_env \<Rightarrow> request_context \<Rightarrow> world \<Rightarrow> uuid \<Rightarrow> uuid \<Rightarrow> tenant_error option \<times> world" where
  "RemoveMember env ctx w tenantID userID =
     (case requirePlatformDomain ctx of
        Some e \<Rightarrow> (Some e, w)
      | None \<Rightarrow>
          (case get_tenant w tenantID of
             Inl e \<Rightarrow> (Some e, w)
           | Inr t \<Rightarrow>
               (case First (filter (\<lambda>m. tu_tenant_id m = t_id t \<and> tu_user_id m = userID
                                         \<and> tu_deleted_at m = None) (tenant_users w)) of
                  Inl e \<Rightarrow>
                    (if e = NotFound then (Some ErrMemberNotFound, w)
                     else (Some (Wrapped ''get membership'' (TenantEntError e)), w))
                | Inr membership \<Rightarrow>
                    let now = ctx_now ctx;
                        w1 = w\<lparr>tenant_users :=
                                 map (soft_delete (tu_id membership) now) (tenant_users w)\<rparr>;
                        domainID = resolveDomainIDSafe w1 (t_code t);
                        w2 = (if domainID = uuid_Nil then w1
                              else snd (RemoveMembership env w1 domainID userID));
                        w3 = (if tu_is_default membership then reassign_default w2 userID
                              else w2)
                    in (None,
                        publish w3
                          (MemberEvent ''tenant.member.removed'' tenantID userID []
                             (actor_of ctx))))))"

text \<open>
  The number of a user's memberships that are active, not soft-deleted and flagged default.
\<close>

definition default_count :: "world \<Rightarrow> uuid \<Rightarrow> nat" where
  "default_count w userID = length (filter tu_is_default (active_memberships w userID))"

section \<open>Properties stated over the model\<close>

text \<open>
  The primary rows of a user in a domain, and a run of \<open>AddOrganizationMember\<close> calls,
  one after the other, each with its own request context.
\<close>

definition primary_rows :: "ou_store \<Rightarrow> uuid \<Rightarrow> uuid \<Rightarrow> organization_member list" where
  "primary_rows s domainID userID =
     filter (\<lambda>m. om_domain_id m = domainID \<and> om_user_id m = userID \<and> om_is_primary m)
       (organization_members s)"

fun run_AddOrganizationMember ::
  "ou_env \<Rightarrow> ou_store \<Rightarrow> (string option \<times> uuid \<times> AddOrganizationMemberRequest option) list
     \<Rightarrow> ou_store" where
  "run_AddOrganizationMember env s [] = s"
| "run_AddOrganizationMember env s ((ctx, organizationID, req) # calls) =
     run_AddOrganizationMember env (snd (AddOrganizationMember env ctx s organizationID req)) calls"

text \<open>
  Whether another member of the tenant (a different user, active and not soft-deleted)
  has a user row with the candidate's username or email.
\<close>

definition other_conflict :: "world \<Rightarrow> uuid \<Rightarrow> uuid \<Rightarrow> user_info \<Rightarrow> bool" where
  "other_conflict w tenantID userID u \<longleftrightarrow>
     (\<exists>m\<in>set (tenant_users w).
        tu_tenant_id m = tenantID \<and> tu_deleted_at m = None \<and> tu_status m = StatusActive
        \<and> tu_user_id m \<noteq> userID
        \<and> (case Edges_User w m of
              None \<Rightarrow> False
            | Some mu \<Rightarrow> ui_username mu = ui_username u \<or> ui_email mu = ui_email u))"

section \<open>Concrete stores and requests\<close>

subsection \<open>Organization units\<close>

text \<open>
  A store that refuses a second organization with the same domain and path and a second
  membership of the same user in the same organization; the context names domain 1.
\<close>

definition ou_env0 :: ou_env where
  "ou_env0 =
     \<lparr>uuid_Parse = (\<lambda>raw. if raw = ''d1'' then Some 1 else None),
      org_create_err =
        (\<lambda>rows r. if (org_domain_id r, org_path r) \<in> set (map (\<lambda>x. (org_domain_id x, org_path x)) rows)
                   then Some ConstraintError else None),
      member_create_err =
        (\<lambda>rows r. if (om_organization_id r, om_user_id r)
                        \<in> set (map (\<lambda>x. (om_organization_id x, om_user_id x)) rows)
                   then Some ConstraintError else None)\<rparr>"

definition ou_ctx0 :: "string option" where
  "ou_ctx0 = Some ''d1''"

definition ou_store0 :: ou_store where
  "ou_store0 = \<lparr>organizations = [], organization_members = [], ou_next_id = 1\<rparr>"

definition org_request :: "string \<Rightarrow> uuid option \<Rightarrow> CreateOrganizationRequest option" where
  "org_request code parent = Some \<lparr>req_Code = code, req_Name = ''Unit'', req_ParentID = parent\<rparr>"

text \<open>The store after the root "company" (row 1) has been created.\<close>

definition company_store :: ou_store where
  "company_store = snd (CreateOrganization ou_env0 ou_ctx0 ou_store0 (org_request ''company'' None))"

text \<open>The store after "engineering" (row 2) has been created under "company".\<close>

definition company_engineering_store :: ou_store where
  "company_engineering_store =
     snd (CreateOrganization ou_env0 ou_ctx0 company_store (org_request ''engineering'' (Some 1)))"

text \<open>
  Two roots, "eng" (row 1) and "engineering" (row 2), and user 7 a member of "engineering".
\<close>

definition two_roots_store :: ou_store where
  "two_roots_store =
     snd (AddOrganizationMember ou_env0 ou_ctx0
            (snd (CreateOrganization ou_env0 ou_ctx0
                    (snd (CreateOrganization ou_env0 ou_ctx0 ou_store0 (org_request ''eng'' None)))
                    (org_request ''engineering'' None)))
            2 (Some \<lparr>req_UserID = 7, req_IsPrimary = False\<rparr>))"

subsection \<open>Tenants\<close>

definition alice :: user_info where
  "alice = \<lparr>ui_id = 1, ui_username = ''alice'', ui_email = ''alice@example.com'',
            ui_nickname = ''Alice'', ui_status = ''active''\<rparr>"

definition bob :: user_info where
  "bob = \<lparr>ui_id = 2, ui_username = ''bob'', ui_email = ''bob@example.com'',
          ui_nickname = ''Bob'', ui_status = ''active''\<rparr>"

text \<open>A second user with the username of \<open>bob\<close>.\<close>

definition bobby :: user_info where
  "bobby = \<lparr>ui_id = 3, ui_username = ''bob'', ui_email = ''bobby@example.com'',
            ui_nickname = ''Bobby'', ui_status = ''active''\<rparr>"

definition carol :: user_info where
  "carol = \<lparr>ui_id = 4, ui_username = ''carol'', ui_email = ''carol@example.com'',
            ui_nickname = ''Carol'', ui_status = ''active''\<rparr>"

definition dave :: user_info where
  "dave = \<lparr>ui_id = 5, ui_username = ''dave'', ui_email = ''dave@example.com'',
           ui_nickname = ''Dave'', ui_status = ''active''\<rparr>"

text \<open>
  The factory's user lookup over the five users, a store that refuses a second tenant with
  the same code, and ports that do not fail.
\<close>

definition tenant_env0 :: tenant_env where
  "tenant_env0 =
     \<lparr>userLookup = entUserLookup [alice, bob, bobby, carol, dave],
      parse_uuid = (\<lambda>raw. None),
      tenant_create_err =
        (\<lambda>rows t. if t_code t \<in> set (map t_code rows) then Some ConstraintError else None),
      tenant_user_create_err = (\<lambda>rows m. None),
      role_create_err = (\<lambda>rows r. None),
      ensure_domain_fails = False,
      add_membership_fails = False,
      remove_membership_fails = False,
      commit_fails = False,
      default_tenant_status = ''active'',
      default_role = ''member''\<rparr>"

text \<open>A platform-domain request of a user at a time.\<close>

definition platform_ctx :: "uuid \<Rightarrow> nat \<Rightarrow> request_context" where
  "platform_ctx userID now = \<lparr>ctx_acting = Some True, ctx_user_id = Some userID, ctx_now = now\<rparr>"

definition create_request :: "string \<Rightarrow> CreateRequest" where
  "create_request code =
     \<lparr>cr_Code = code, cr_Name = ''Tenant'', cr_Description = [], cr_Status = [],
      cr_ParentTenantID = []\<rparr>"

text \<open>An empty store that knows the five users.\<close>

definition world0 :: world where
  "world0 =
     \<lparr>tenants = [], tenant_users = [], users = [alice, bob, bobby, carol, dave], roles = [],
      domains = [], domain_memberships = [], published = [], next_id = 10\<rparr>"

definition plain_tenant :: "uuid \<Rightarrow> string \<Rightarrow> tenant" where
  "plain_tenant tenantID code =
     \<lparr>t_id = tenantID, t_code = code, t_name = ''Tenant'', t_description = [],
      t_status = ''active'', t_owner_id = 0, t_parent_tenant_id = None, t_deleted_at = None,
      t_created_at = 0, t_updated_at = 0\<rparr>"

definition membership_row ::
  "uuid \<Rightarrow> uuid \<Rightarrow> uuid \<Rightarrow> bool \<Rightarrow> tenantuser_status \<Rightarrow> nat \<Rightarrow> tenant_user" where
  "membership_row rowID tenantID userID isDefault status created =
     \<lparr>tu_id = rowID, tu_tenant_id = tenantID, tu_user_id = userID, tu_role = ''member'',
      tu_is_default = isDefault, tu_status = status, tu_deleted_at = None,
      tu_created_at = created\<rparr>"

text \<open>
  Three tenants. Alice is a member of all three, her default being the first; the
  membership in tenant 3 is older than the one in tenant 2. Bob is a member of tenant 1.
  Dave has one membership, in tenant 1, flagged default but inactive.
\<close>

definition members_world :: world where
  "members_world =
     world0\<lparr>tenants := [plain_tenant 1 ''a'', plain_tenant 2 ''b'', plain_tenant 3 ''c''],
            tenant_users :=
              [membership_row 21 1 1 True StatusActive 90,
               membership_row 22 2 1 False StatusActive 95,
               membership_row 23 3 1 False StatusActive 93,
               membership_row 24 1 2 True StatusActive 100,
               membership_row 25 1 5 True StatusInactive 80],
            next_id := 30\<rparr>"

text \<open>
  Alice, acting in the platform domain at time 100, has created the tenant "acme" in the
  empty store (tenant row 10); then the tenant has been soft-deleted at time 101.
\<close>

definition acme_world :: world where
  "acme_world = snd (CreateTenant tenant_env0 (platform_ctx 1 100) world0 (create_request ''acme''))"

definition deleted_acme_world :: world where
  "deleted_acme_world = snd (DeleteTenant tenant_env0 (platform_ctx 1 101) acme_world 10)"

definition rename_request :: UpdateRequest where
  "rename_request =
     \<lparr>ur_Name = ''Renamed'', ur_Description = [], ur_Status = [], ur_ParentTenantID = []\<rparr>"

text \<open>The ports of \<open>tenant_env0\<close>, except that adding a domain membership fails.\<close>

definition failing_env :: tenant_env where
  "failing_env = tenant_env0\<lparr>add_membership_fails := True\<rparr>"

text \<open>
  Carol is added to tenants 1 and 2, removed from tenant 1 and added to tenant 1 again.
\<close>

definition readd_world :: world where
  "readd_world =
     snd (AddMember tenant_env0 (platform_ctx 9 203)
       (snd (RemoveMember tenant_env0 (platform_ctx 9 202)
         (snd (AddMember tenant_env0 (platform_ctx 9 201)
           (snd (AddMember tenant_env0 (platform_ctx 9 200)
                  (world0\<lparr>tenants := [plain_tenant 1 ''a'', plain_tenant 2 ''b'']\<rparr>) 1 4 []))
           2 4 []))
         1 4))
       1 4 [])"

section \<open>Facts about the queries\<close>

lemma Only_Inr: "Only xs = Inr x \<longleftrightarrow> xs = [x]"
  by (cases xs rule: Only.cases) auto

lemma Only_NotFound: "Only xs = Inl NotFound \<longleftrightarrow> xs = []"
  by (cases xs rule: Only.cases) auto

lemma First_Inr: "First xs = Inr x \<longleftrightarrow> (\<exists>ys. xs = x # ys)"
  by (cases xs) auto

lemma First_sort_key_min:
  assumes "First (sort_key f xs) = Inr a"
  shows "a \<in> set xs \<and> (\<forall>x\<in>set xs. f a \<le> f x)"
proof -
  from assms obtain ys where ys: "sort_key f xs = a # ys"
    by (auto simp: First_Inr)
  have "set (sort_key f xs) = set xs" by simp
  with ys have mem: "a \<in> set xs" and sub: "set xs = insert a (set ys)" by auto
  have "sorted (map f (sort_key f xs))" by (rule sorted_sort_key)
  with ys have "\<forall>y\<in>set ys. f a \<le> f y" by simp
  with mem sub show ?thesis by auto
qed

section \<open>Organization units: paths, primary flags, subtrees\<close>

lemma lookup_org_Inr:
  assumes "lookup_org s i d = Inr x"
  shows "x \<in> set (organizations s) \<and> org_id x = i \<and> org_domain_id x = d"
proof -
  from assms have "filter (\<lambda>x. org_id x = i \<and> org_domain_id x = d) (organizations s) = [x]"
    by (auto simp: lookup_org_def Only_Inr split: sum.splits if_splits)
  then have "x \<in> set (filter (\<lambda>x. org_id x = i \<and> org_domain_id x = d) (organizations s))"
    by simp
  then show ?thesis by simp
qed

lemma lookup_org_missing:
  assumes "\<forall>x\<in>set (organizations s). \<not> (org_id x = i \<and> org_domain_id x = d)"
  shows "lookup_org s i d = Inl ErrOrganizationNotFound"
proof -
  from assms have "filter (\<lambda>x. org_id x = i \<and> org_domain_id x = d) (organizations s) = []"
    by (auto simp: filter_empty_conv)
  then show ?thesis by (simp add: lookup_org_def)
qed

text \<open>Every path that \<open>CreateOrganization\<close> stores is non-empty.\<close>

lemma CreateOrganization_paths_nonempty:
  assumes "\<forall>x\<in>set (organizations s). org_path x \<noteq> []"
  shows "\<forall>x\<in>set (organizations (snd (CreateOrganization env ctx s req))). org_path x \<noteq> []"
  using assms
  by (auto simp: CreateOrganization_def Let_def split: option.splits sum.splits prod.splits)

text \<open>
  Claim C5. A \<open>CreateOrganization\<close> call whose trimmed code and name are not empty, in a
  store whose paths are all non-empty (as every path the service writes is): without a
  parent the created node's path is the code; with a parent that does not exist in the
  domain of the context the call fails with \<open>ErrOrganizationNotFound\<close> and changes
  nothing; with a parent the created node's path is the parent's path, a slash and the
  code. The created node is stored, in the domain of the context, with the trimmed code
  and the requested parent.
\<close>

theorem CreateOrganization_path:
  assumes code: "TrimSpace (req_Code req) \<noteq> []"
    and name: "TrimSpace (req_Name req) \<noteq> []"
    and dom: "domainIDFromContext env ctx = Inr d"
    and paths: "\<forall>x\<in>set (organizations s). org_path x \<noteq> []"
  shows "(case req_ParentID req of
            None \<Rightarrow>
              (\<forall>item. fst (CreateOrganization env ctx s (Some req)) = Inr item
                 \<longrightarrow> org_path item = TrimSpace (req_Code req))
          | Some pid \<Rightarrow>
              ((\<forall>x\<in>set (organizations s). \<not> (org_id x = pid \<and> org_domain_id x = d))
                 \<longrightarrow> CreateOrganization env ctx s (Some req) = (Inl ErrOrganizationNotFound, s))
              \<and> (\<forall>item. fst (CreateOrganization env ctx s (Some req)) = Inr item
                   \<longrightarrow> (\<exists>parent\<in>set (organizations s). org_id parent = pid
                          \<and> org_domain_id parent = d
                          \<and> org_path item = org_path parent @ ''/'' @ TrimSpace (req_Code req))))
         \<and> (\<forall>item. fst (CreateOrganization env ctx s (Some req)) = Inr item
               \<longrightarrow> item \<in> set (organizations (snd (CreateOrganization env ctx s (Some req))))
                   \<and> org_domain_id item = d \<and> org_code item = TrimSpace (req_Code req)
                   \<and> org_parent_id item = req_ParentID req)"
proof (cases "req_ParentID req")
  case None
  with code name dom show ?thesis
    by (auto simp: CreateOrganization_def Let_def toOrganizationResponse_def
        split: option.splits)
next
  case (Some pid)
  show ?thesis
  proof (cases "lookup_org s pid d")
    case (Inl e)
    have "e = ErrOrganizationNotFound"
      if "\<forall>x\<in>set (organizations s). \<not> (org_id x = pid \<and> org_domain_id x = d)"
      using that Inl lookup_org_missing[of s pid d] by simp
    with Some Inl code name dom show ?thesis
      by (auto simp: CreateOrganization_def Let_def)
  next
    case (Inr parent)
    from lookup_org_Inr[OF Inr] have p: "parent \<in> set (organizations s)" "org_id parent = pid"
      "org_domain_id parent = d" by auto
    with paths have ne: "org_path parent \<noteq> []" by blast
    from Some Inr code name dom p ne show ?thesis
      by (auto simp: CreateOrganization_def Let_def toOrganizationResponse_def
          split: option.splits)
  qed
qed

text \<open>
  The theorem at the store holding the root "company": the child "engineering" created
  under it gets the path "company/engineering".
\<close>

theorem CreateOrganization_path_witness:
  "fst (CreateOrganization ou_env0 ou_ctx0 company_store (org_request ''engineering'' (Some 1)))
     = Inr \<lparr>org_id = 2, org_domain_id = 1, org_parent_id = Some 1, org_code = ''engineering'',
            org_name = ''Unit'', org_path = ''company/engineering''\<rparr>
   \<and> (\<exists>parent\<in>set (organizations company_store).
         org_id parent = 1 \<and> org_domain_id parent = 1
         \<and> ''company/engineering'' = org_path parent @ ''/'' @ ''engineering'')"
proof -
  define req where "req = \<lparr>req_Code = ''engineering'', req_Name = ''Unit'', req_ParentID = Some 1\<rparr>"
  have r: "org_request ''engineering'' (Some 1) = Some req"
    by (simp add: org_request_def req_def)
  have code: "TrimSpace (req_Code req) = ''engineering''"
    unfolding req_def by code_simp
  have name: "TrimSpace (req_Name req) \<noteq> []"
    unfolding req_def by code_simp
  have dom: "domainIDFromContext ou_env0 ou_ctx0 = Inr 1"
    by code_simp
  have paths: "\<forall>x\<in>set (organizations company_store). org_path x \<noteq> []"
    by code_simp
  have res: "fst (CreateOrganization ou_env0 ou_ctx0 company_store (Some req))
             = Inr \<lparr>org_id = 2, org_domain_id = 1, org_parent_id = Some 1,
                    org_code = ''engineering'', org_name = ''Unit'',
                    org_path = ''company/engineering''\<rparr>"
    unfolding req_def by code_simp
  have parent: "req_ParentID req = Some 1"
    by (simp add: req_def)
  have nonempty: "TrimSpace (req_Code req) \<noteq> []"
    by (simp add: code)
  from CreateOrganization_path[OF nonempty name dom paths] res
  show ?thesis
    unfolding r by (simp add: parent code)
qed

lemma filter_demote_same:
  "filter (\<lambda>m. om_domain_id m = d \<and> om_user_id m = u \<and> om_is_primary m)
     (map (demote_primary d u) ms) = []"
  by (induction ms) (auto simp: demote_primary_def)

lemma filter_demote_other:
  "(d, u) \<noteq> (d', u') \<Longrightarrow>
   filter (\<lambda>m. om_domain_id m = d \<and> om_user_id m = u \<and> om_is_primary m)
     (map (demote_primary d' u') ms)
   = filter (\<lambda>m. om_domain_id m = d \<and> om_user_id m = u \<and> om_is_primary m) ms"
  by (induction ms) (auto simp: demote_primary_def)

text \<open>One call keeps "at most one primary row" for every user and domain.\<close>

lemma AddOrganizationMember_primary_step:
  assumes "length (primary_rows s d u) \<le> 1"
  shows "length (primary_rows (snd (AddOrganizationMember env ctx s organizationID req)) d u) \<le> 1"
proof (cases "AddOrganizationMember env ctx s organizationID req
              = (fst (AddOrganizationMember env ctx s organizationID req), s)")
  case True
  then have "snd (AddOrganizationMember env ctx s organizationID req) = s"
    by (metis snd_conv)
  with assms show ?thesis by simp
next
  case False
  then obtain r dom where r: "req = Some r" and dom: "domainIDFromContext env ctx = Inr dom"
    by (auto simp: AddOrganizationMember_def split: option.splits sum.splits)
  show ?thesis
  proof (cases "(d, u) = (dom, req_UserID r)")
    case True
    with assms r dom show ?thesis
      by (auto simp: AddOrganizationMember_def primary_rows_def Let_def filter_demote_same
          split: sum.splits option.splits)
  next
    case False
    with assms r dom show ?thesis
      by (auto simp: AddOrganizationMember_def primary_rows_def Let_def filter_demote_other
          split: sum.splits option.splits)
  qed
qed

lemma run_AddOrganizationMember_primary:
  "length (primary_rows s d u) \<le> 1
     \<Longrightarrow> length (primary_rows (run_AddOrganizationMember env s calls) d u) \<le> 1"
proof (induction calls arbitrary: s)
  case Nil
  then show ?case by simp
next
  case (Cons c calls)
  obtain ctx oid req where c: "c = (ctx, oid, req)" by (cases c) auto
  from Cons.prems have "length (primary_rows (snd (AddOrganizationMember env ctx s oid req)) d u) \<le> 1"
    by (rule AddOrganizationMember_primary_step)
  then show ?case
    using Cons.IH by (simp add: c)
qed

text \<open>After a call that inserts a primary row, that row is the user's only primary row.\<close>

lemma AddOrganizationMember_new_primary:
  assumes "fst (AddOrganizationMember env ctx s organizationID (Some req)) = Inr resp"
    and "req_IsPrimary req"
    and "domainIDFromContext env ctx = Inr d"
  shows "primary_rows (snd (AddOrganizationMember env ctx s organizationID (Some req))) d (req_UserID req)
         = [\<lparr>om_id = resp_ID resp, om_domain_id = d, om_organization_id = organizationID,
              om_user_id = req_UserID req, om_is_primary = True\<rparr>]"
  using assms
  by (auto simp: AddOrganizationMember_def primary_rows_def Let_def filter_demote_same
      split: sum.splits if_splits option.splits)

text \<open>
  Claim C9. If a user has at most one primary row in a domain, then after any sequence of
  \<open>AddOrganizationMember\<close> calls, run one after the other, the user still has at most one
  primary row in that domain; and a call that inserts a primary row leaves that row as the
  only primary row of its user in its domain, every earlier one having been demoted.
\<close>

theorem AddOrganizationMember_single_primary:
  "(length (primary_rows s d u) \<le> 1
      \<longrightarrow> length (primary_rows (run_AddOrganizationMember env s calls) d u) \<le> 1)
   \<and> (fst (AddOrganizationMember env ctx s organizationID (Some req)) = Inr resp
        \<and> req_IsPrimary req \<and> domainIDFromContext env ctx = Inr d'
      \<longrightarrow> primary_rows (snd (AddOrganizationMember env ctx s organizationID (Some req))) d'
            (req_UserID req)
          = [\<lparr>om_id = resp_ID resp, om_domain_id = d', om_organization_id = organizationID,
               om_user_id = req_UserID req, om_is_primary = True\<rparr>])"
  using run_AddOrganizationMember_primary[of s d u env calls]
    AddOrganizationMember_new_primary[of env ctx s organizationID req resp d']
  by blast

text \<open>
  The theorem at the store with "company" and "engineering": user 7 is made a primary
  member of the first, then of the second, and ends with one primary row, the second.
\<close>

theorem AddOrganizationMember_single_primary_witness:
  "length (primary_rows company_engineering_store 1 7) \<le> 1
   \<and> length (primary_rows
        (run_AddOrganizationMember ou_env0 company_engineering_store
           [(ou_ctx0, 1, Some \<lparr>req_UserID = 7, req_IsPrimary = True\<rparr>),
            (ou_ctx0, 2, Some \<lparr>req_UserID = 7, req_IsPrimary = True\<rparr>)]) 1 7) \<le> 1
   \<and> map om_organization_id (primary_rows
        (run_AddOrganizationMember ou_env0 company_engineering_store
           [(ou_ctx0, 1, Some \<lparr>req_UserID = 7, req_IsPrimary = True\<rparr>),
            (ou_ctx0, 2, Some \<lparr>req_UserID = 7, req_IsPrimary = True\<rparr>)]) 1 7) = [2]"
proof -
  have before: "length (primary_rows company_engineering_store 1 7) \<le> 1"
    by code_simp
  have which: "map om_organization_id (primary_rows
        (run_AddOrganizationMember ou_env0 company_engineering_store
           [(ou_ctx0, 1, Some \<lparr>req_UserID = 7, req_IsPrimary = True\<rparr>),
            (ou_ctx0, 2, Some \<lparr>req_UserID = 7, req_IsPrimary = True\<rparr>)]) 1 7) = [2]"
    by code_simp
  from AddOrganizationMember_single_primary[of company_engineering_store 1 7 ou_env0
      "[(ou_ctx0, 1, Some \<lparr>req_UserID = 7, req_IsPrimary = True\<rparr>),
        (ou_ctx0, 2, Some \<lparr>req_UserID = 7, req_IsPrimary = True\<rparr>)]"] before which
  show ?thesis by blast
qed

lemma in_subtree_cases:
  assumes "in_subtree orgs root i"
  shows "i = root \<or> (\<exists>x\<in>set orgs. org_id x = i \<and> org_parent_id x \<noteq> None)"
  using assms by (cases rule: in_subtree.cases) auto

lemma uniqueUserIDs_loop_result:
  assumes "seen = set acc" "distinct acc"
  shows "distinct (uniqueUserIDs_loop seen acc ms)
         \<and> set (uniqueUserIDs_loop seen acc ms) = set acc \<union> {om_user_id m |m. Some m \<in> set ms}"
  using assms
proof (induction seen acc ms rule: uniqueUserIDs_loop.induct)
  case (1 seen userIDs)
  then show ?case by simp
next
  case (2 seen userIDs rest)
  then show ?case by simp
next
  case (3 seen userIDs item rest)
  show ?case
  proof (cases "om_user_id item \<in> seen")
    case True
    with 3 show ?thesis by auto
  next
    case False
    with "3.prems" have "insert (om_user_id item) seen = set (userIDs @ [om_user_id item])"
      "distinct (userIDs @ [om_user_id item])"
      by auto
    from "3.IH"(2)[OF False this] False show ?thesis by auto
  qed
qed

lemma uniqueUserIDs_result:
  "distinct (uniqueUserIDs (map Some members))
   \<and> set (uniqueUserIDs (map Some members)) = om_user_id ` set members"
proof (cases members)
  case Nil
  then show ?thesis by (simp add: uniqueUserIDs_def)
next
  case (Cons m ms)
  have "{om_user_id x |x. Some x \<in> set (map Some members)} = om_user_id ` set members"
    by auto
  with uniqueUserIDs_loop_result[of "{}" "[]" "map Some members"] Cons
  show ?thesis by (simp add: uniqueUserIDs_def)
qed

text \<open>
  What \<open>ListSubtreeUserIDs\<close> returns for a node that exists: each user once, and exactly
  the users of the members, in the domain, of the nodes of the domain whose path has the
  node's path as a prefix of characters. For a node that does not exist in the domain it
  fails with \<open>ErrOrganizationNotFound\<close>.
\<close>

lemma ListSubtreeUserIDs_result:
  assumes "lookup_org s orgID domainID = Inr org"
  shows "\<exists>userIDs. ListSubtreeUserIDs s domainID orgID = Inr userIDs \<and> distinct userIDs
           \<and> set userIDs
               = {om_user_id m |m. m \<in> set (organization_members s) \<and> om_domain_id m = domainID
                    \<and> (\<exists>x\<in>set (organizations s). org_domain_id x = domainID
                          \<and> prefix (org_path org) (org_path x)
                          \<and> org_id x = om_organization_id m)}"
proof -
  define nodes where "nodes = filter (\<lambda>x. org_domain_id x = domainID \<and> prefix (org_path org) (org_path x))
                        (organizations s)"
  define members where "members = filter (\<lambda>m. om_domain_id m = domainID
                                          \<and> om_organization_id m \<in> set (map org_id nodes))
                               (organization_members s)"
  have res: "ListSubtreeUserIDs s domainID orgID
             = (if length nodes = 0 then Inr [] else Inr (uniqueUserIDs (map Some members)))"
    using assms by (simp add: ListSubtreeUserIDs_def Let_def nodes_def members_def)
  have target: "om_user_id ` set members
        = {om_user_id m |m. m \<in> set (organization_members s) \<and> om_domain_id m = domainID
                    \<and> (\<exists>x\<in>set (organizations s). org_domain_id x = domainID
                          \<and> prefix (org_path org) (org_path x)
                          \<and> org_id x = om_organization_id m)}"
  proof -
    have "set members
          = {m \<in> set (organization_members s). om_domain_id m = domainID
               \<and> (\<exists>x\<in>set (organizations s). org_domain_id x = domainID
                     \<and> prefix (org_path org) (org_path x)
                     \<and> org_id x = om_organization_id m)}"
      unfolding members_def nodes_def by (auto simp: image_iff)
    then show ?thesis by blast
  qed
  show ?thesis
  proof (cases "length nodes = 0")
    case True
    then have "members = []" by (simp add: members_def)
    with True res target show ?thesis by auto
  next
    case False
    with res uniqueUserIDs_result[of members] target show ?thesis by simp
  qed
qed

lemma ListSubtreeUserIDs_missing:
  assumes "\<forall>x\<in>set (organizations s). \<not> (org_id x = orgID \<and> org_domain_id x = domainID)"
  shows "ListSubtreeUserIDs s domainID orgID = Inl ErrOrganizationNotFound"
proof -
  from assms have "filter (\<lambda>x. org_id x = orgID \<and> org_domain_id x = domainID) (organizations s) = []"
    by (auto simp: filter_empty_conv)
  then show ?thesis by (simp add: ListSubtreeUserIDs_def lookup_org_def)
qed

text \<open>
  Claim C3, at a store the service itself has built: two roots, "eng" (row 1) and
  "engineering" (row 2), and user 7 a member of "engineering" only. "engineering" has no
  parent, so it is not in the subtree of "eng"; its path starts with the characters of the
  path of "eng", and \<open>ListSubtreeUserIDs\<close> for "eng" returns user 7.
\<close>

theorem ListSubtreeUserIDs_sibling_prefix:
  "ListSubtreeUserIDs two_roots_store 1 1 = Inr [7]
   \<and> map (\<lambda>x. (org_id x, org_parent_id x, org_path x)) (organizations two_roots_store)
       = [(1, None, ''eng''), (2, None, ''engineering'')]
   \<and> map (\<lambda>m. (om_organization_id m, om_user_id m)) (organization_members two_roots_store)
       = [(2, 7)]
   \<and> \<not> in_subtree (organizations two_roots_store) 1 2"
proof -
  have res: "ListSubtreeUserIDs two_roots_store 1 1 = Inr [7]"
    by code_simp
  have orgs: "map (\<lambda>x. (org_id x, org_parent_id x, org_path x)) (organizations two_roots_store)
              = [(1, None, ''eng''), (2, None, ''engineering'')]"
    by code_simp
  have members: "map (\<lambda>m. (om_organization_id m, om_user_id m))
                   (organization_members two_roots_store) = [(2, 7)]"
    by code_simp
  have roots: "\<forall>x\<in>set (organizations two_roots_store). org_parent_id x = None"
    by code_simp
  have "\<not> in_subtree (organizations two_roots_store) 1 2"
  proof
    assume "in_subtree (organizations two_roots_store) 1 2"
    from in_subtree_cases[OF this] roots show False by auto
  qed
  with res orgs members show ?thesis by simp
qed

section \<open>Memberships: conflicts, idempotence, default reassignment\<close>

lemma get_tenant_Inr:
  assumes "get_tenant w tenantID = Inr t"
  shows "t_id t = tenantID \<and> t \<in> set (tenants w)"
proof -
  from assms have "Only (filter (\<lambda>t. t_id t = tenantID) (tenants w)) = Inr t"
    by (auto simp: get_tenant_def split: sum.splits if_splits)
  then have "filter (\<lambda>t. t_id t = tenantID) (tenants w) = [t]"
    by (simp add: Only_Inr)
  then have "t \<in> set (filter (\<lambda>t. t_id t = tenantID) (tenants w))" by simp
  then show ?thesis by simp
qed

lemma member_conflict_iff:
  "member_conflict w userID u ms \<longleftrightarrow>
     (\<exists>m\<in>set ms. tu_user_id m \<noteq> userID
        \<and> (case Edges_User w m of
              None \<Rightarrow> False
            | Some mu \<Rightarrow> ui_username mu = ui_username u \<or> ui_email mu = ui_email u))"
  by (induction ms) (auto split: option.splits)

lemma member_conflict_other_conflict:
  "member_conflict w userID u
     (filter (\<lambda>m. tu_tenant_id m = tenantID \<and> tu_deleted_at m = None
                  \<and> tu_status m = StatusActive) (tenant_users w))
   \<longleftrightarrow> other_conflict w tenantID userID u"
  by (auto simp: member_conflict_iff other_conflict_def)

lemma tenant_users_publish [simp]: "tenant_users (publish w e) = tenant_users w"
  by (simp add: publish_def)

lemma tenant_users_AddMembership [simp]:
  "tenant_users (snd (AddMembership env w d s r b)) = tenant_users w"
  by (simp add: AddMembership_def)

lemma tenant_users_RemoveMembership [simp]:
  "tenant_users (snd (RemoveMembership env w d s)) = tenant_users w"
  by (simp add: RemoveMembership_def)



text \<open>
  When the store accepts every insert, \<open>ensureMembership\<close> succeeds and the user is an
  active, not soft-deleted member of the tenant afterwards.
\<close>

lemma ensureMembership_member:
  assumes "\<forall>rows item. tenant_user_create_err env rows item = None"
  shows "fst (ensureMembership env ctx w tenantID userID force roleName) = None
         \<and> (\<exists>m\<in>set (tenant_users (snd (ensureMembership env ctx w tenantID userID force roleName))).
               tu_tenant_id m = tenantID \<and> tu_user_id m = userID \<and> tu_deleted_at m = None
               \<and> tu_status m = StatusActive)"
proof (cases "filter (\<lambda>m. tu_tenant_id m = tenantID \<and> tu_user_id m = userID) (tenant_users w)")
  case Nil
  with assms show ?thesis
    by (simp add: ensureMembership_def Let_def new_membership_def)
next
  case (Cons e es)
  then have "e \<in> set (filter (\<lambda>m. tu_tenant_id m = tenantID \<and> tu_user_id m = userID) (tenant_users w))"
    by simp
  then have e: "e \<in> set (tenant_users w)" "tu_tenant_id e = tenantID" "tu_user_id e = userID"
    by auto
  show ?thesis
  proof (cases "tu_deleted_at e = None \<and> tu_status e = StatusActive")
    case True
    with Cons e show ?thesis
      by (auto simp: ensureMembership_def)
  next
    case False
    have "reactivate (tu_id e) e \<in> set (map (reactivate (tu_id e)) (tenant_users w))"
      using e(1) by simp
    moreover have "tu_tenant_id (reactivate (tu_id e) e) = tenantID"
      "tu_user_id (reactivate (tu_id e) e) = userID"
      "tu_deleted_at (reactivate (tu_id e) e) = None"
      "tu_status (reactivate (tu_id e) e) = StatusActive"
      using e by (simp_all add: reactivate_def)
    ultimately show ?thesis
      using False Cons by (auto simp: ensureMembership_def)
  qed
qed

text \<open>
  \<open>AddMember\<close> past its gate, tenant load and user lookup: \<open>ErrMemberExists\<close> when the
  loop finds a conflict; otherwise the domain membership, then \<open>ensureMembership\<close>.
\<close>

lemma AddMember_conflict:
  assumes "requirePlatformDomain ctx = None" "get_tenant w tenantID = Inr t"
    "userLookup env userID = Inr u" "other_conflict w tenantID userID u"
  shows "AddMember env ctx w tenantID userID role = (Some ErrMemberExists, w)"
proof -
  from assms(2) have tid: "t_id t = tenantID" by (simp add: get_tenant_Inr)
  from assms(4) have "member_conflict w userID u
     (filter (\<lambda>m. tu_tenant_id m = tenantID \<and> tu_deleted_at m = None
                  \<and> tu_status m = StatusActive) (tenant_users w))"
    by (simp add: member_conflict_other_conflict)
  with assms(1-3) tid show ?thesis
    by (simp add: AddMember_def)
qed

lemma AddMember_no_conflict:
  assumes "requirePlatformDomain ctx = None" "get_tenant w tenantID = Inr t"
    "userLookup env userID = Inr u" "\<not> other_conflict w tenantID userID u"
    and "roleName = (if role = [] then ''member'' else role)"
    and "domainID = resolveDomainIDSafe w (t_code t)"
  shows "AddMember env ctx w tenantID userID role
         = (case (if domainID = uuid_Nil then (None, w)
                  else AddMembership env w domainID userID roleName False) of
              (Some e, w1) \<Rightarrow> (Some (Wrapped ''add domain membership'' e), w1)
            | (None, w1) \<Rightarrow>
                (case ensureMembership env ctx w1 tenantID userID False roleName of
                   (Some e, w2) \<Rightarrow> (Some (Wrapped ''ensure membership'' e), w2)
                 | (None, w2) \<Rightarrow>
                     (None, publish w2 (MemberEvent ''tenant.member.added'' tenantID userID
                                          roleName (actor_of ctx)))))"
proof -
  from assms(2) have tid: "t_id t = tenantID" by (simp add: get_tenant_Inr)
  from assms(4) have "\<not> member_conflict w userID u
     (filter (\<lambda>m. tu_tenant_id m = tenantID \<and> tu_deleted_at m = None
                  \<and> tu_status m = StatusActive) (tenant_users w))"
    by (simp add: member_conflict_other_conflict)
  with assms(1-3) show ?thesis
    unfolding assms(5,6) tid[symmetric] by (simp add: AddMember_def Let_def)
qed

lemma AddMember_MemberExists:
  assumes "requirePlatformDomain ctx = None" "get_tenant w tenantID = Inr t"
    "userLookup env userID = Inr u"
  shows "fst (AddMember env ctx w tenantID userID role) = Some ErrMemberExists
         \<longleftrightarrow> other_conflict w tenantID userID u"
proof (cases "other_conflict w tenantID userID u")
  case True
  with AddMember_conflict[OF assms True] show ?thesis by simp
next
  case False
  have "fst (AddMember env ctx w tenantID userID role) \<noteq> Some ErrMemberExists"
    unfolding AddMember_no_conflict[OF assms False refl refl]
    by (simp split: prod.splits option.splits)
  with False show ?thesis by simp
qed

text \<open>
  Claim C6. For a call of \<open>AddMember\<close> that passes the platform-domain gate, finds the
  tenant and resolves the user: it fails with \<open>ErrMemberExists\<close> if and only if another
  user's active, not soft-deleted membership of the same tenant has a user row with the
  candidate's username or email. Members of other tenants do not count: when the tenant
  has no such member, the domain membership can be added and the store accepts inserts,
  the call succeeds and the user is an active member of the tenant afterwards.
\<close>

theorem AddMember_MemberExists_iff:
  assumes "requirePlatformDomain ctx = None"
    and "get_tenant w tenantID = Inr t"
    and "userLookup env userID = Inr u"
  shows "(fst (AddMember env ctx w tenantID userID role) = Some ErrMemberExists
            \<longleftrightarrow> other_conflict w tenantID userID u)
         \<and> (\<not> other_conflict w tenantID userID u \<and> \<not> add_membership_fails env
              \<and> (\<forall>rows item. tenant_user_create_err env rows item = None)
            \<longrightarrow> fst (AddMember env ctx w tenantID userID role) = None
                \<and> (\<exists>m\<in>set (tenant_users (snd (AddMember env ctx w tenantID userID role))).
                      tu_tenant_id m = tenantID \<and> tu_user_id m = userID
                      \<and> tu_deleted_at m = None \<and> tu_status m = StatusActive))"
proof (intro conjI impI)
  show "fst (AddMember env ctx w tenantID userID role) = Some ErrMemberExists
          \<longleftrightarrow> other_conflict w tenantID userID u"
    using assms by (rule AddMember_MemberExists)
next
  assume a: "\<not> other_conflict w tenantID userID u \<and> \<not> add_membership_fails env
              \<and> (\<forall>rows item. tenant_user_create_err env rows item = None)"
  define roleName where "roleName = (if role = [] then ''member'' else role)"
  define domainID where "domainID = resolveDomainIDSafe w (t_code t)"
  define w1 where "w1 = (if domainID = uuid_Nil then w
                         else snd (AddMembership env w domainID userID roleName False))"
  have step: "(if domainID = uuid_Nil then (None, w)
               else AddMembership env w domainID userID roleName False) = (None, w1)"
    using a by (simp add: w1_def AddMembership_def)
  from ensureMembership_member[of env ctx w1 tenantID userID False roleName] a
  obtain w2 where e: "ensureMembership env ctx w1 tenantID userID False roleName = (None, w2)"
    and m: "\<exists>m\<in>set (tenant_users w2). tu_tenant_id m = tenantID \<and> tu_user_id m = userID
              \<and> tu_deleted_at m = None \<and> tu_status m = StatusActive"
    by (cases "ensureMembership env ctx w1 tenantID userID False roleName") auto
  from a have nc: "\<not> other_conflict w tenantID userID u" by simp
  have "AddMember env ctx w tenantID userID role
        = (None, publish w2 (MemberEvent ''tenant.member.added'' tenantID userID roleName
                               (actor_of ctx)))"
    unfolding AddMember_no_conflict[OF assms nc roleName_def domainID_def]
    by (simp add: step e)
  with m show "fst (AddMember env ctx w tenantID userID role) = None"
    and "\<exists>m\<in>set (tenant_users (snd (AddMember env ctx w tenantID userID role))).
           tu_tenant_id m = tenantID \<and> tu_user_id m = userID
           \<and> tu_deleted_at m = None \<and> tu_status m = StatusActive"
    by simp_all
qed

text \<open>
  The theorem at the store of three tenants, for Bobby, who has Bob's username: adding
  him to tenant 1, where Bob is a member, fails with \<open>ErrMemberExists\<close>; adding him to
  tenant 2 succeeds.
\<close>

theorem AddMember_MemberExists_iff_witness:
  "fst (AddMember tenant_env0 (platform_ctx 9 200) members_world 1 3 []) = Some ErrMemberExists
   \<and> other_conflict members_world 1 3 bobby
   \<and> \<not> other_conflict members_world 2 3 bobby
   \<and> fst (AddMember tenant_env0 (platform_ctx 9 200) members_world 2 3 []) = None"
proof -
  have gate: "requirePlatformDomain (platform_ctx 9 200) = None"
    by code_simp
  have t1: "get_tenant members_world 1 = Inr (plain_tenant 1 ''a'')"
    by code_simp
  have t2: "get_tenant members_world 2 = Inr (plain_tenant 2 ''b'')"
    by code_simp
  have lk: "userLookup tenant_env0 3 = Inr bobby"
    by code_simp
  have c1: "other_conflict members_world 1 3 bobby"
    by code_simp
  have c2: "\<not> other_conflict members_world 2 3 bobby"
    by code_simp
  have ok: "\<not> add_membership_fails tenant_env0"
    "\<forall>rows item. tenant_user_create_err tenant_env0 rows item = None"
    by (simp_all add: tenant_env0_def)
  from AddMember_MemberExists_iff[OF gate t1 lk, where role = "[]"] c1
  have r1: "fst (AddMember tenant_env0 (platform_ctx 9 200) members_world 1 3 []) = Some ErrMemberExists"
    by blast
  from AddMember_MemberExists_iff[OF gate t2 lk, where role = "[]"] c2 ok
  have r2: "fst (AddMember tenant_env0 (platform_ctx 9 200) members_world 2 3 []) = None"
    by blast
  from r1 r2 c1 c2 show ?thesis by blast
qed



lemma active_memberships_promote:
  "active_memberships (w\<lparr>tenant_users := map (promote rowID) (tenant_users w)\<rparr>) userID
   = map (promote rowID) (active_memberships w userID)"
  by (simp add: active_memberships_def filter_map comp_def promote_def if_distrib cong: if_cong)

text \<open>
  \<open>reassign_default\<close> makes an oldest active membership of the user, if there is one, a
  default membership, and keeps the user's active memberships otherwise.
\<close>

lemma reassign_default_oldest:
  assumes "active_memberships w userID \<noteq> []"
  shows "\<exists>a\<in>set (active_memberships (reassign_default w userID) userID).
           tu_is_default a
           \<and> (\<forall>r\<in>set (active_memberships (reassign_default w userID) userID).
                 tu_created_at a \<le> tu_created_at r)"
proof -
  from assms have "sort_key tu_created_at (active_memberships w userID) \<noteq> []"
    by (metis length_sort length_0_conv)
  then obtain alt where alt: "First (sort_key tu_created_at (active_memberships w userID)) = Inr alt"
    by (cases "sort_key tu_created_at (active_memberships w userID)") auto
  from First_sort_key_min[OF alt]
  have mem: "alt \<in> set (active_memberships w userID)"
    and least: "\<forall>x\<in>set (active_memberships w userID). tu_created_at alt \<le> tu_created_at x"
    by auto
  have rows: "active_memberships (reassign_default w userID) userID
              = map (promote (tu_id alt)) (active_memberships w userID)"
    by (simp add: reassign_default_def alt active_memberships_promote)
  have in_rows: "promote (tu_id alt) alt \<in> set (map (promote (tu_id alt)) (active_memberships w userID))"
    using mem by simp
  have flag: "tu_is_default (promote (tu_id alt) alt)"
    by (simp add: promote_def)
  have created: "tu_created_at (promote (tu_id alt) x) = tu_created_at x" for x
    by (simp add: promote_def)
  have "\<forall>r\<in>set (map (promote (tu_id alt)) (active_memberships w userID)).
          tu_created_at (promote (tu_id alt) alt) \<le> tu_created_at r"
    using least by (simp add: created)
  with in_rows flag show ?thesis
    unfolding rows by blast
qed

lemma reassign_default_ids:
  "map tu_id (active_memberships (reassign_default w userID) userID)
   = map tu_id (active_memberships w userID)"
proof (cases "First (sort_key tu_created_at (active_memberships w userID))")
  case (Inl e)
  then show ?thesis by (simp add: reassign_default_def)
next
  case (Inr alt)
  have "tu_id (promote rowID x) = tu_id x" for rowID x
    by (simp add: promote_def)
  then show ?thesis
    by (simp add: reassign_default_def Inr active_memberships_promote comp_def)
qed

lemma active_memberships_soft_delete:
  "active_memberships (w\<lparr>tenant_users := map (soft_delete rowID now) (tenant_users w)\<rparr>) userID
   = filter (\<lambda>r. tu_id r \<noteq> rowID) (active_memberships w userID)"
proof -
  have "filter (\<lambda>m. tu_user_id m = userID \<and> tu_deleted_at m = None \<and> tu_status m = StatusActive)
          (map (soft_delete rowID now) rows)
        = filter (\<lambda>r. tu_id r \<noteq> rowID)
            (filter (\<lambda>m. tu_user_id m = userID \<and> tu_deleted_at m = None \<and> tu_status m = StatusActive) rows)"
    for rows
    by (induction rows) (auto simp: soft_delete_def)
  then show ?thesis by (simp add: active_memberships_def)
qed

lemma active_memberships_cong:
  "tenant_users w = tenant_users w' \<Longrightarrow> active_memberships w userID = active_memberships w' userID"
  by (simp add: active_memberships_def)

text \<open>
  Claim C4. \<open>RemoveMember\<close> passes the gate, finds the tenant and finds the user's
  membership of it, which is flagged default. Then the call succeeds; the user's active
  memberships afterwards are the earlier ones without the removed row; if there is none,
  the user has no default membership, and otherwise one of them with the least creation
  time is flagged default.
\<close>

theorem RemoveMember_reassigns_default:
  assumes "requirePlatformDomain ctx = None"
    and "get_tenant w tenantID = Inr t"
    and "First (filter (\<lambda>m. tu_tenant_id m = tenantID \<and> tu_user_id m = userID
                             \<and> tu_deleted_at m = None) (tenant_users w)) = Inr membership"
    and "tu_is_default membership"
  shows "fst (RemoveMember env ctx w tenantID userID) = None
         \<and> map tu_id (active_memberships (snd (RemoveMember env ctx w tenantID userID)) userID)
             = map tu_id (filter (\<lambda>r. tu_id r \<noteq> tu_id membership) (active_memberships w userID))
         \<and> (if active_memberships (snd (RemoveMember env ctx w tenantID userID)) userID = []
             then default_count (snd (RemoveMember env ctx w tenantID userID)) userID = 0
             else \<exists>a\<in>set (active_memberships (snd (RemoveMember env ctx w tenantID userID)) userID).
                    tu_is_default a
                    \<and> (\<forall>r\<in>set (active_memberships (snd (RemoveMember env ctx w tenantID userID)) userID).
                          tu_created_at a \<le> tu_created_at r))"
proof -
  from assms(2) have tid: "t_id t = tenantID" by (simp add: get_tenant_Inr)
  define w1 where "w1 = w\<lparr>tenant_users := map (soft_delete (tu_id membership) (ctx_now ctx)) (tenant_users w)\<rparr>"
  define w2 where "w2 = (if resolveDomainIDSafe w1 (t_code t) = uuid_Nil then w1
                         else snd (RemoveMembership env w1 (resolveDomainIDSafe w1 (t_code t)) userID))"
  define w3 where "w3 = reassign_default w2 userID"
  have res: "RemoveMember env ctx w tenantID userID
             = (None, publish w3 (MemberEvent ''tenant.member.removed'' tenantID userID [] (actor_of ctx)))"
    using assms tid by (simp add: RemoveMember_def Let_def w1_def w2_def w3_def)
  have "tenant_users w2 = tenant_users w1" by (simp add: w2_def)
  then have a2: "active_memberships w2 userID
                 = filter (\<lambda>r. tu_id r \<noteq> tu_id membership) (active_memberships w userID)"
    using active_memberships_cong[of w2 w1 userID]
    by (simp add: w1_def active_memberships_soft_delete)
  have a3: "active_memberships (snd (RemoveMember env ctx w tenantID userID)) userID
            = active_memberships w3 userID"
    by (rule active_memberships_cong) (simp add: res)
  have ids: "map tu_id (active_memberships w3 userID)
             = map tu_id (filter (\<lambda>r. tu_id r \<noteq> tu_id membership) (active_memberships w userID))"
    unfolding w3_def by (simp add: reassign_default_ids a2)
  have empty: "active_memberships w3 userID = [] \<longleftrightarrow> active_memberships w2 userID = []"
    using reassign_default_ids[of w2 userID] unfolding w3_def
    by (metis map_is_Nil_conv)
  show ?thesis
  proof (cases "active_memberships w2 userID = []")
    case True
    with empty have "active_memberships w3 userID = []" by simp
    with res ids a3 show ?thesis
      by (simp add: default_count_def)
  next
    case False
    from reassign_default_oldest[OF False] empty False res ids a3
    show ?thesis
      by (simp add: w3_def)
  qed
qed

text \<open>
  The theorem at the store of three tenants: Alice's default membership, of tenant 1, is
  removed. Her memberships of tenants 2 and 3 remain (rows 22 and 23), and the older one,
  row 23 of time 93, is the default afterwards.
\<close>

theorem RemoveMember_reassigns_default_witness:
  "fst (RemoveMember tenant_env0 (platform_ctx 9 200) members_world 1 1) = None
   \<and> map tu_id (active_memberships
        (snd (RemoveMember tenant_env0 (platform_ctx 9 200) members_world 1 1)) 1) = [22, 23]
   \<and> map (\<lambda>m. (tu_id m, tu_created_at m))
       (filter tu_is_default (active_memberships
          (snd (RemoveMember tenant_env0 (platform_ctx 9 200) members_world 1 1)) 1)) = [(23, 93)]"
proof -
  have gate: "requirePlatformDomain (platform_ctx 9 200) = None"
    by code_simp
  have t1: "get_tenant members_world 1 = Inr (plain_tenant 1 ''a'')"
    by code_simp
  have found: "First (filter (\<lambda>m. tu_tenant_id m = 1 \<and> tu_user_id m = 1 \<and> tu_deleted_at m = None)
                        (tenant_users members_world))
               = Inr (membership_row 21 1 1 True StatusActive 90)"
    by code_simp
  have flag: "tu_is_default (membership_row 21 1 1 True StatusActive 90)"
    by (simp add: membership_row_def)
  have others: "map tu_id (filter (\<lambda>r. tu_id r \<noteq> tu_id (membership_row 21 1 1 True StatusActive 90))
                             (active_memberships members_world 1)) = [22, 23]"
    by code_simp
  have promoted: "map (\<lambda>m. (tu_id m, tu_created_at m))
       (filter tu_is_default (active_memberships
          (snd (RemoveMember tenant_env0 (platform_ctx 9 200) members_world 1 1)) 1)) = [(23, 93)]"
    by code_simp
  from RemoveMember_reassigns_default[OF gate t1 found flag, where env = tenant_env0] others promoted
  show ?thesis by simp
qed

section \<open>Fresh memberships and the default flag\<close>




lemma new_membership_sel [simp]:
  "tu_tenant_id (new_membership env ctx rowID tenantID userID isDefault roleName) = tenantID"
  "tu_user_id (new_membership env ctx rowID tenantID userID isDefault roleName) = userID"
  "tu_is_default (new_membership env ctx rowID tenantID userID isDefault roleName) = isDefault"
  "tu_deleted_at (new_membership env ctx rowID tenantID userID isDefault roleName) = None"
  "tu_status (new_membership env ctx rowID tenantID userID isDefault roleName) = StatusActive"
  by (simp_all add: new_membership_def)




section \<open>Tenant lifecycle\<close>

lemma EnsureDomain_tables:
  "tenants (snd (EnsureDomain env w a b c)) = tenants w
   \<and> tenant_users (snd (EnsureDomain env w a b c)) = tenant_users w"
  by (simp add: EnsureDomain_def Let_def split: option.splits)

lemma seed_roles_tables:
  "tenants (snd (seed_roles env w d baseline)) = tenants w
   \<and> tenant_users (snd (seed_roles env w d baseline)) = tenant_users w"
  by (induction env w d baseline rule: seed_roles.induct)
     (auto simp: Let_def split: option.splits)

lemma SeedBaselineRoles_tables:
  "tenants (snd (SeedBaselineRoles env w d)) = tenants w
   \<and> tenant_users (snd (SeedBaselineRoles env w d)) = tenant_users w"
  unfolding SeedBaselineRoles_def by (rule seed_roles_tables)

lemma AddMembership_tables:
  "tenants (snd (AddMembership env w d s r b)) = tenants w
   \<and> tenant_users (snd (AddMembership env w d s r b)) = tenant_users w"
  by (simp add: AddMembership_def)

lemma bind_owner_tables:
  "tenants (fst (snd (bind_owner env ctx w x t d))) = tenants w
   \<and> tenant_users (fst (snd (bind_owner env ctx w x t d))) = tenant_users w"
proof (cases "ctx_user_id ctx")
  case None
  then show ?thesis by (simp add: bind_owner_def)
next
  case (Some ownerID)
  obtain r w1 where a: "AddMembership env w d ownerID ''tenant_admin'' True = (r, w1)"
    by (cases "AddMembership env w d ownerID ''tenant_admin'' True") auto
  with AddMembership_tables[of env w d ownerID "''tenant_admin''" True]
  have w1: "tenants w1 = tenants w" "tenant_users w1 = tenant_users w" by simp_all
  show ?thesis
    using Some a w1
    by (cases r; cases "ensureMembershipTx env ctx (next_id w1) x t ownerID True ''tenant_admin''")
       (auto simp: bind_owner_def split: option.splits)
qed

text \<open>
  What a failed \<open>CreateTenant\<close> does roll back: the tables of tenants and of tenant-user
  memberships are what they were before the call.
\<close>

lemma CreateTenant_failure_rolls_back_tables:
  assumes failed: "fst (CreateTenant env ctx w req) = Inl e"
  shows "tenants (snd (CreateTenant env ctx w req)) = tenants w
         \<and> tenant_users (snd (CreateTenant env ctx w req)) = tenant_users w"
proof (cases "requirePlatformDomain ctx")
  case (Some e')
  then show ?thesis by (simp add: CreateTenant_def)
next
  case gate: None
  show ?thesis
  proof (cases "TrimSpace (cr_Code req) = [] \<or> TrimSpace (cr_Name req) = []")
    case True
    with gate show ?thesis by (auto simp: CreateTenant_def)
  next
    case valid: False
    show ?thesis
    proof (cases "resolveParentTenantID env w (cr_ParentTenantID req) uuid_Nil")
      case (Inl e')
      with gate valid show ?thesis by (simp add: CreateTenant_def)
    next
      case parent: (Inr parent)
      define t where "t = new_tenant env ctx (next_id w) req parent"
      show ?thesis
      proof (cases "tenant_create_err env (tenants w) t")
        case (Some e')
        with gate valid parent show ?thesis
          by (simp add: CreateTenant_def t_def)
      next
        case saved: None
        obtain r2 w2 where ensure: "EnsureDomain env (w\<lparr>next_id := Suc (next_id w)\<rparr>) ''tenant''
            (TrimSpace (cr_Code req)) (TrimSpace (cr_Name req)) = (r2, w2)"
          by (cases "EnsureDomain env (w\<lparr>next_id := Suc (next_id w)\<rparr>) ''tenant''
            (TrimSpace (cr_Code req)) (TrimSpace (cr_Name req))") auto
        with EnsureDomain_tables[of env "w\<lparr>next_id := Suc (next_id w)\<rparr>" "''tenant''"
            "TrimSpace (cr_Code req)" "TrimSpace (cr_Name req)"]
        have w2: "tenants w2 = tenants w" "tenant_users w2 = tenant_users w" by simp_all
        show ?thesis
        proof (cases r2)
          case (Inl e')
          with gate valid parent saved ensure w2 show ?thesis
            by (simp add: CreateTenant_def Let_def t_def[symmetric])
        next
          case dom: (Inr d)
          obtain r3 w3 where seed: "SeedBaselineRoles env w2 (dom_id d) = (r3, w3)"
            by (cases "SeedBaselineRoles env w2 (dom_id d)") auto
          with SeedBaselineRoles_tables[of env w2 "dom_id d"] w2
          have w3: "tenants w3 = tenants w" "tenant_users w3 = tenant_users w" by simp_all
          show ?thesis
          proof (cases r3)
            case (Some e')
            with gate valid parent saved ensure dom seed w3 show ?thesis
              by (simp add: CreateTenant_def Let_def t_def[symmetric])
          next
            case seeded: None
            define x1 where "x1 = \<lparr>tx_tenants = tenants w @ [t], tx_tenant_users = tenant_users w\<rparr>"
            obtain r4 w4 x2 where bind: "bind_owner env ctx w3 x1 (t_id t) (dom_id d) = (r4, w4, x2)"
              by (cases "bind_owner env ctx w3 x1 (t_id t) (dom_id d)") auto
            with bind_owner_tables[of env ctx w3 x1 "t_id t" "dom_id d"] w3
            have w4: "tenants w4 = tenants w" "tenant_users w4 = tenant_users w" by simp_all
            show ?thesis
            proof (cases r4)
              case (Some e')
              with gate valid parent saved ensure dom seed seeded bind[unfolded x1_def]
              have "CreateTenant env ctx w req = (Inl e', w4)"
                by (simp add: CreateTenant_def Let_def t_def[symmetric])
              with w4 show ?thesis by simp
            next
              case bound: None
              show ?thesis
              proof (cases "commit_fails env")
                case True
                with gate valid parent saved ensure dom seed seeded bound bind[unfolded x1_def]
                have "CreateTenant env ctx w req
                      = (Inl (Wrapped ''commit tenant creation'' (External ''commit failed'')), w4)"
                  by (simp add: CreateTenant_def Let_def t_def[symmetric])
                with w4 show ?thesis by simp
              next
                case False
                with gate valid parent saved ensure dom seed seeded bound bind[unfolded x1_def]
                have "fst (CreateTenant env ctx w req) = Inr (toDTO t (dom_id d))"
                  by (simp add: CreateTenant_def Let_def t_def[symmetric])
                with failed show ?thesis by simp
              qed
            qed
          qed
        qed
      qed
    qed
  qed
qed

text \<open>
  Claim C1, at a call whose owner binding fails. Alice creates the tenant "acme" in the
  empty store, and the \<open>DomainWriter\<close> port refuses to add her domain membership. The
  call returns the error and the rollback leaves no tenant and no tenant-user row, but the
  domain of the tenant and its two seeded roles, written outside the transaction, are
  in the store afterwards.
\<close>

theorem CreateTenant_rollback_keeps_domain_and_roles:
  "fst (CreateTenant failing_env (platform_ctx 1 100) world0 (create_request ''acme''))
     = Inl (Wrapped ''add owner membership to domain'' (External ''add membership failed''))
   \<and> tenants (snd (CreateTenant failing_env (platform_ctx 1 100) world0 (create_request ''acme''))) = []
   \<and> tenant_users (snd (CreateTenant failing_env (platform_ctx 1 100) world0 (create_request ''acme''))) = []
   \<and> domains world0 = [] \<and> roles world0 = []
   \<and> map (\<lambda>d. (dom_type_code d, dom_key d))
       (domains (snd (CreateTenant failing_env (platform_ctx 1 100) world0 (create_request ''acme''))))
       = [(''tenant'', ''acme'')]
   \<and> map role_code
       (roles (snd (CreateTenant failing_env (platform_ctx 1 100) world0 (create_request ''acme''))))
       = [''owner'', ''member'']"
  by code_simp

text \<open>
  Claim C2, at two calls of the same user. Alice creates the tenant "acme" and then the
  tenant "beta"; both calls succeed, each inserts her owner membership with the default
  flag forced, and she ends with two active memberships flagged default.
\<close>

theorem CreateTenant_twice_two_defaults:
  "map (\<lambda>m. (tu_tenant_id m, tu_user_id m, tu_is_default m, tu_status m, tu_deleted_at m))
     (tenant_users
        (snd (CreateTenant tenant_env0 (platform_ctx 1 101) acme_world (create_request ''beta''))))
     = [(10, 1, True, StatusActive, None), (15, 1, True, StatusActive, None)]
   \<and> default_count acme_world 1 = 1
   \<and> default_count
       (snd (CreateTenant tenant_env0 (platform_ctx 1 101) acme_world (create_request ''beta''))) 1
     = 2"
  by code_simp

text \<open>
  The same invariant fails without \<open>CreateTenant\<close>: Carol is added to tenants 1 and 2,
  removed from tenant 1 (the default moves to tenant 2) and added to tenant 1 again; the
  reactivated row still carries its default flag, and she ends with two defaults.
\<close>

lemma readd_two_defaults:
  "map (\<lambda>m. (tu_tenant_id m, tu_user_id m, tu_is_default m, tu_status m, tu_deleted_at m))
     (tenant_users readd_world)
     = [(1, 4, True, StatusActive, None), (2, 4, True, StatusActive, None)]
   \<and> default_count readd_world 4 = 2"
  by code_simp

text \<open>For an identifier that no tenant row has, \<open>UpdateTenant\<close> fails with \<open>ErrTenantNotFound\<close>.\<close>

lemma UpdateTenant_absent:
  assumes "requirePlatformDomain ctx = None"
    and "\<forall>t\<in>set (tenants w). t_id t \<noteq> tenantID"
  shows "UpdateTenant env ctx w tenantID req = (Inl ErrTenantNotFound, w)"
proof -
  from assms(2) have "filter (\<lambda>t. t_id t = tenantID) (tenants w) = []"
    by (auto simp: filter_empty_conv)
  then have "get_tenant w tenantID = Inl ErrTenantNotFound"
    by (simp add: get_tenant_def)
  with assms(1) show ?thesis
    by (simp add: UpdateTenant_def)
qed

text \<open>
  Claim C7, at a soft-deleted tenant. The tenant "acme" (row 10) has been soft-deleted at
  time 101. \<open>UpdateTenant\<close> of row 10 then returns the renamed tenant, not
  \<open>ErrTenantNotFound\<close>, and the soft-deleted row carries the new name.
\<close>

theorem UpdateTenant_updates_soft_deleted:
  "map (\<lambda>t. (t_id t, t_name t, t_deleted_at t)) (tenants deleted_acme_world)
     = [(10, ''Tenant'', Some 101)]
   \<and> fst (UpdateTenant tenant_env0 (platform_ctx 1 102) deleted_acme_world 10 rename_request)
     = Inr \<lparr>dto_ID = 10, dto_Code = ''acme'', dto_Name = ''Renamed'', dto_Description = [],
            dto_Status = ''active'', dto_OwnerID = Some 1, dto_ParentTenantID = None,
            dto_DomainID = 11, dto_CreatedAt = 100, dto_UpdatedAt = 102\<rparr>
   \<and> map (\<lambda>t. (t_id t, t_name t, t_deleted_at t))
       (tenants (snd (UpdateTenant tenant_env0 (platform_ctx 1 102) deleted_acme_world 10
                        rename_request)))
     = [(10, ''Renamed'', Some 101)]"
  by code_simp

end
